theory Spec2Isabelle
  imports Main "HOL-Library.DAList" "HOL-Library.Sublist"
begin

section \<open>Python values, exceptions and observable effects\<close>

text \<open>
  The script \<^verbatim>\<open>opergroup_bgp_sros.py\<close> talks to the router through pySROS. Filters and
  configuration payloads are nested Python dictionaries of strings; a query result is a
  dictionary keyed by entry name. A dictionary has unique keys and keeps insertion order, so
  query results are \<open>(string, 'v) alist\<close> (an association list with distinct keys), where
  \<open>'v\<close> is the container pySROS returns for one entry.
\<close>

datatype pyval = Str string | Dict "(string \<times> pyval) list"

text \<open>
  Exceptions. \<open>SrosMgmtError\<close> carries its \<^verbatim>\<open>args\<close> tuple (the script formats it),
  \<open>TypeError\<close> its message. \<open>OtherError\<close> stands for any other exception class a collaborator
  raises (\<^verbatim>\<open>LookupError\<close>, \<^verbatim>\<open>KeyError\<close>, \<^verbatim>\<open>ValueError\<close>, ...).
\<close>

datatype exn =
    SrosMgmtError "string list"
  | TypeError string
  | IndexError
  | AssertionError string
  | OtherError string

record event =
  eventid :: int
  subject :: string

text \<open>Every call that leaves the script is recorded, in program order.\<close>

datatype action =
    Connect
  | GetEvent
  | Disconnect
  | PrintLog string
  | Print string
  | PrintVal pyval
  | PrintTable "string list" string string
  | Sleep int
  | RunningGet string pyval
  | CandidateSet string pyval

text \<open>
  The collaborators are parameters. \<open>'w\<close> is the state of the device:
  \<^item> \<open>running_get w path filter\<close> is \<^verbatim>\<open>connection.running.get(path, filter=...)\<close>: a read of
    the device state, which returns a dictionary or raises;
  \<^item> \<open>candidate_set w path payload\<close> is \<^verbatim>\<open>connection.candidate.set(path, payload)\<close>: it
    returns or raises, and leaves the device in a new state either way;
  \<^item> \<open>time_sleep w n\<close> is the device state after \<^verbatim>\<open>time.sleep(n)\<close>;
  \<^item> \<open>table_print rows info header\<close> is \<^verbatim>\<open>print_table(to_rows(rows), info, header)\<close>. The
    row generator is lazy and runs inside \<^verbatim>\<open>Table.print\<close>; its key lookup and timestamp
    parsing may raise, so the whole rendering is one call that returns or raises.
\<close>

record ('w, 'v) pysros =
  running_get :: "'w \<Rightarrow> string \<Rightarrow> pyval \<Rightarrow> exn + (string, 'v) alist"
  candidate_set :: "'w \<Rightarrow> string \<Rightarrow> pyval \<Rightarrow> exn option \<times> 'w"
  time_sleep :: "'w \<Rightarrow> int \<Rightarrow> 'w"
  table_print :: "(string \<times> 'v) list \<Rightarrow> string \<Rightarrow> string \<Rightarrow> exn option"

text \<open>
  A computation takes the device state and gives its result (\<open>Inl\<close> an uncaught exception),
  the actions it performed and the device state it leaves.
\<close>

type_synonym ('w, 'a) io = "'w \<Rightarrow> (exn + 'a) \<times> action list \<times> 'w"

definition io_return :: "'a \<Rightarrow> ('w, 'a) io" where
  "io_return x = (\<lambda>w. (Inr x, [], w))"

definition io_raise :: "exn \<Rightarrow> ('w, 'a) io" where
  "io_raise e = (\<lambda>w. (Inl e, [], w))"

definition io_emit :: "action \<Rightarrow> ('w, unit) io" where
  "io_emit a = (\<lambda>w. (Inr (), [a], w))"

definition io_bind :: "('w, 'a) io \<Rightarrow> ('a \<Rightarrow> ('w, 'b) io) \<Rightarrow> ('w, 'b) io" where
  "io_bind m f = (\<lambda>w.
     case m w of
       (Inl e, tr, w') \<Rightarrow> (Inl e, tr, w')
     | (Inr x, tr, w') \<Rightarrow> (case f x w' of (r, tr', w'') \<Rightarrow> (r, tr @ tr', w'')))"

text \<open>\<^verbatim>\<open>try: m  except ...: h\<close>: \<open>h e = None\<close> when no clause matches \<open>e\<close>.\<close>

definition io_try :: "('w, 'a) io \<Rightarrow> (exn \<Rightarrow> ('w, 'a) io option) \<Rightarrow> ('w, 'a) io" where
  "io_try m h = (\<lambda>w.
     case m w of
       (Inr x, tr, w') \<Rightarrow> (Inr x, tr, w')
     | (Inl e, tr, w') \<Rightarrow>
         (case h e of
            None \<Rightarrow> (Inl e, tr, w')
          | Some k \<Rightarrow> (case k w' of (r, tr', w'') \<Rightarrow> (r, tr @ tr', w''))))"

definition io_running_get ::
  "('w, 'v) pysros \<Rightarrow> string \<Rightarrow> pyval \<Rightarrow> ('w, (string, 'v) alist) io" where
  "io_running_get connection path flt =
     (\<lambda>w. (running_get connection w path flt, [RunningGet path flt], w))"

definition io_candidate_set :: "('w, 'v) pysros \<Rightarrow> string \<Rightarrow> pyval \<Rightarrow> ('w, unit) io" where
  "io_candidate_set connection path payload = (\<lambda>w.
     case candidate_set connection w path payload of
       (None, w') \<Rightarrow> (Inr (), [CandidateSet path payload], w')
     | (Some e, w') \<Rightarrow> (Inl e, [CandidateSet path payload], w'))"

definition io_sleep :: "('w, 'v) pysros \<Rightarrow> int \<Rightarrow> ('w, unit) io" where
  "io_sleep connection n = (\<lambda>w. (Inr (), [Sleep n], time_sleep connection w n))"

section \<open>Constants and string helpers\<close>

definition WELL_KNOWN_EBGP_GROUP_NAME :: string where
  "WELL_KNOWN_EBGP_GROUP_NAME = ''rr''"

definition MIN_NUM_ACTIVE_BGP_SESSIONS :: int where
  "MIN_NUM_ACTIVE_BGP_SESSIONS = 1"

definition nl :: string where "nl = [CHR 0x0A]"
definition tab :: string where "tab = [CHR 0x09]"
definition dq :: string where "dq = [CHR 0x22]"

definition interface_state_path :: string where
  "interface_state_path =
     ''/nokia-state:state/router[router-name='' @ dq @ ''Base'' @ dq @ '']/interface''"

definition bgp_state_path :: string where
  "bgp_state_path =
     ''/nokia-state:state/router[router-name='' @ dq @ ''Base'' @ dq @ '']/bgp/neighbor''"

definition bgp_conf_path :: string where
  "bgp_conf_path =
     ''/nokia-conf:configure/router[router-name='' @ dq @ ''Base'' @ dq @ '']/bgp/neighbor''"

definition cfg_path :: string where
  "cfg_path = ''/nokia-conf:configure/router[router-name='' @ dq @ ''Base'' @ dq @ '']''"

text \<open>\<^verbatim>\<open>sep.join(xs)\<close>\<close>

fun join :: "string \<Rightarrow> string list \<Rightarrow> string" where
  "join sep [] = []"
| "join sep [x] = x"
| "join sep (x # y # ys) = x @ sep @ join sep (y # ys)"

text \<open>\<^verbatim>\<open>"%d" % n\<close> for an integer.\<close>

fun str_nat :: "nat \<Rightarrow> string" where
  "str_nat n =
     (if n < 10 then [char_of (48 + n)]
      else str_nat (n div 10) @ [char_of (48 + n mod 10)])"

declare str_nat.simps [simp del]

definition str_int :: "int \<Rightarrow> string" where
  "str_int i = (if i < 0 then ''-'' @ str_nat (nat (- i)) else str_nat (nat i))"

text \<open>
  \<^verbatim>\<open>(pre + "%s" + post) % args\<close> with a tuple on the right: the tuple must have exactly one
  element, otherwise the operator raises \<^verbatim>\<open>TypeError\<close>.
\<close>

definition format_s_tuple :: "string \<Rightarrow> string \<Rightarrow> string list \<Rightarrow> exn + string" where
  "format_s_tuple pre post args =
     (case args of
        [] \<Rightarrow> Inl (TypeError ''not enough arguments for format string'')
      | [a] \<Rightarrow> Inr (pre @ a @ post)
      | _ \<Rightarrow> Inl (TypeError ''not all arguments converted during string formatting''))"

text \<open>
  \<^verbatim>\<open>c.isdigit()\<close>. A HOL character is a code point from U+0000 to U+00FF. In this range
  \<^verbatim>\<open>str.isdigit\<close> is true for the ten ASCII digits and for the superscript digits U+00B2,
  U+00B3 and U+00B9.
\<close>

definition isdigit :: "char \<Rightarrow> bool" where
  "isdigit c \<longleftrightarrow> c \<in> set ''0123456789'' \<or> c \<in> {CHR 0xB2, CHR 0xB3, CHR 0xB9}"

section \<open>The script\<close>

text \<open>\<^verbatim>\<open>print_log(message)\<close> prints the message behind a timestamp; the clock is not modelled.\<close>

definition print_log :: "string \<Rightarrow> ('w, unit) io" where
  "print_log message = io_emit (PrintLog message)"

definition py_print :: "string \<Rightarrow> ('w, unit) io" where
  "py_print s = io_emit (Print s)"

definition print_table ::
  "('w, 'v) pysros \<Rightarrow> (string, 'v) alist \<Rightarrow> string \<Rightarrow> string \<Rightarrow> ('w, unit) io" where
  "print_table connection rows info header = (\<lambda>w.
     case table_print connection (DAList.impl_of rows) info header of
       None \<Rightarrow> (Inr (), [PrintTable (map fst (DAList.impl_of rows)) info header], w)
     | Some e \<Rightarrow> (Inl e, [PrintTable (map fst (DAList.impl_of rows)) info header], w))"

subsection \<open>\<^verbatim>\<open>find_interfaces\<close>\<close>

text \<open>The loop over \<^verbatim>\<open>base_router_state.items()\<close>, with \<^verbatim>\<open>active_interfaces\<close> as accumulator.\<close>

fun find_interfaces_loop ::
  "(string \<times> 'v) list \<Rightarrow> (string, 'v) alist \<Rightarrow> (string, 'v) alist" where
  "find_interfaces_loop [] active_interfaces = active_interfaces"
| "find_interfaces_loop ((interface, state) # rest) active_interfaces =
     (if \<not> sublist ''tester'' interface then find_interfaces_loop rest active_interfaces
      else find_interfaces_loop rest (DAList.update interface state active_interfaces))"

definition find_interfaces ::
  "('w, 'v) pysros \<Rightarrow> string \<Rightarrow> ('w, (string, 'v) alist) io" where
  "find_interfaces connection oper_status_filter =
     io_bind (io_running_get connection interface_state_path
                (Dict [(''oper-state'', Str oper_status_filter)]))
       (\<lambda>base_router_state.
          io_return (find_interfaces_loop (DAList.impl_of base_router_state) DAList.empty))"

subsection \<open>\<^verbatim>\<open>modify_downstream_interfaces\<close>\<close>

text \<open>The loop that fills \<^verbatim>\<open>cfg_payload["nokia-conf:interface"]\<close>.\<close>

fun cfg_payload_loop ::
  "string list \<Rightarrow> string \<Rightarrow> (string \<times> pyval) list \<Rightarrow> (string \<times> pyval) list" where
  "cfg_payload_loop [] change entries = entries"
| "cfg_payload_loop (interface # rest) change entries =
     cfg_payload_loop rest change
       (AList.update interface
          (Dict [(''interface-name'', Str interface), (''admin-state'', Str change)]) entries)"

definition modify_downstream_interfaces ::
  "('w, 'v) pysros \<Rightarrow> (string, 'v) alist \<Rightarrow> string \<Rightarrow> ('w, bool) io" where
  "modify_downstream_interfaces connection active_interfaces change =
     (if change \<notin> set [''enable'', ''disable'']
      then io_raise (AssertionError (''Action must be enable or disable. Found '' @ change))
      else
        io_bind (py_print (''Interfaces to be brought ''
                   @ (if change = ''enable'' then ''up'' else ''down'') @ '':'' @ nl @ tab
                   @ join (nl @ tab) (map fst (DAList.impl_of active_interfaces)) @ nl))
          (\<lambda>_.
             let entries = cfg_payload_loop (map fst (DAList.impl_of active_interfaces)) change [];
                 cfg_payload = Dict [(''nokia-conf:interface'', Dict entries)]
             in io_bind
                  (if entries \<noteq> []
                   then io_try (io_candidate_set connection cfg_path cfg_payload)
                          (\<lambda>error. case error of
                             SrosMgmtError args \<Rightarrow>
                               Some (case format_s_tuple
                                            (''Disabling the active interfaces failed due to an error:''
                                               @ nl @ tab) '''' args of
                                       Inl e \<Rightarrow> io_raise e
                                     | Inr s \<Rightarrow> py_print s)
                           | TypeError msg \<Rightarrow>
                               Some (io_bind (py_print msg) (\<lambda>_. io_emit (PrintVal cfg_payload)))
                           | _ \<Rightarrow> None)
                   else io_return ())
                  (\<lambda>_. io_return True)))"

subsection \<open>\<^verbatim>\<open>count_ebgp_sessions_established\<close>\<close>

definition nb_filter :: pyval where
  "nb_filter = Dict [(''statistics'',
                 Dict [(''received-paths'', Dict []), (''session-state'', Str ''Established'')])]"

definition ebgp_group_filter :: pyval where
  "ebgp_group_filter = Dict [(''ip-address'', Dict []), (''group'', Str WELL_KNOWN_EBGP_GROUP_NAME)]"

text \<open>The loop over \<^verbatim>\<open>find_ebgp_configuration.keys()\<close>.\<close>

fun count_loop :: "string list \<Rightarrow> (string, 'v) alist \<Rightarrow> int \<Rightarrow> int" where
  "count_loop [] bgp_session_state number_of_active_ebgp_sessions =
     number_of_active_ebgp_sessions"
| "count_loop (ebgp_session # rest) bgp_session_state number_of_active_ebgp_sessions =
     (if DAList.lookup bgp_session_state ebgp_session \<noteq> None
      then count_loop rest bgp_session_state (number_of_active_ebgp_sessions + 1)
      else count_loop rest bgp_session_state number_of_active_ebgp_sessions)"

definition count_ebgp_sessions_established :: "('w, 'v) pysros \<Rightarrow> ('w, int) io" where
  "count_ebgp_sessions_established connection =
     io_bind (io_running_get connection bgp_state_path nb_filter)
       (\<lambda>bgp_session_state.
          io_bind (io_running_get connection bgp_conf_path ebgp_group_filter)
            (\<lambda>find_ebgp_configuration.
               io_return (count_loop (map fst (DAList.impl_of find_ebgp_configuration))
                            bgp_session_state 0)))"

subsection \<open>The two handlers\<close>

definition found_message :: "int \<Rightarrow> string \<Rightarrow> string" where
  "found_message active_ebgp_sessions tail =
     ''Found '' @ str_int active_ebgp_sessions @ '' active peerings, we need ''
       @ str_int MIN_NUM_ACTIVE_BGP_SESSIONS @ ''. '' @ tail"

definition backwardsHandler :: "('w, 'v) pysros \<Rightarrow> string \<Rightarrow> ('w, unit) io" where
  "backwardsHandler connection subj =
     io_bind (print_log (''received a BGP session degradation event for BGP Peer :'' @ nl @ tab
                @ subj @ '','' @ nl
                @ ''We need at least a single uplink bgp peer! Checking other peerings.''))
       (\<lambda>_.
     io_bind (count_ebgp_sessions_established connection)
       (\<lambda>active_ebgp_sessions.
          if active_ebgp_sessions \<ge> MIN_NUM_ACTIVE_BGP_SESSIONS
          then print_log (found_message active_ebgp_sessions (''Situation is manageable.'' @ nl))
          else
            io_bind (print_log (found_message active_ebgp_sessions
                       (''Protect the downstream network!'' @ nl)))
              (\<lambda>_.
            io_bind (find_interfaces connection ''up'')
              (\<lambda>active_interfaces.
                 if DAList.impl_of active_interfaces \<noteq> []
                 then
                   io_bind (print_table connection active_interfaces ''Up''
                              ''(up -> down) [BEFORE]'') (\<lambda>_.
                   io_bind (io_sleep connection 1) (\<lambda>_.
                   io_bind (modify_downstream_interfaces connection active_interfaces
                              ''disable'') (\<lambda>_.
                   io_bind (io_sleep connection 1) (\<lambda>_.
                   io_bind (find_interfaces connection ''down'')
                     (\<lambda>inactive_interfaces.
                        if DAList.impl_of inactive_interfaces \<noteq> []
                        then print_table connection inactive_interfaces ''Down''
                               ''(up -> down) [AFTER]''
                        else io_return ())))))
                 else py_print ''No changes required, interfaces already down.''))))"

text \<open>
  In \<^verbatim>\<open>establishedHandler\<close> the "Found ... Interfaces to be re-enabled" message is built but
  never printed, and there is no branch for a count below the threshold.
\<close>

definition establishedHandler :: "('w, 'v) pysros \<Rightarrow> string \<Rightarrow> ('w, unit) io" where
  "establishedHandler connection subj =
     io_bind (print_log (''received a BGP session establishment event for BGP Peer :'' @ nl
                @ tab @ subj @ '','' @ nl))
       (\<lambda>_.
     io_bind (count_ebgp_sessions_established connection)
       (\<lambda>active_ebgp_sessions.
          if active_ebgp_sessions \<ge> MIN_NUM_ACTIVE_BGP_SESSIONS
          then
            io_bind (find_interfaces connection ''down'')
              (\<lambda>active_interfaces.
                 if DAList.impl_of active_interfaces \<noteq> []
                 then
                   io_bind (print_table connection active_interfaces ''Down''
                              ''(down -> up) [BEFORE]'') (\<lambda>_.
                   io_bind (io_sleep connection 1) (\<lambda>_.
                   io_bind (modify_downstream_interfaces connection active_interfaces
                              ''enable'') (\<lambda>_.
                   io_bind (io_sleep connection 1) (\<lambda>_.
                   io_bind (find_interfaces connection ''up'')
                     (\<lambda>inactive_interfaces.
                        if DAList.impl_of inactive_interfaces \<noteq> []
                        then print_table connection inactive_interfaces ''Up''
                               ''(down -> up) [AFTER]''
                        else io_return ())))))
                 else py_print ''No changes required, interfaces already up.'')
          else io_return ()))"

subsection \<open>\<^verbatim>\<open>main\<close>\<close>

text \<open>
  \<^verbatim>\<open>not trigger_event or trigger_event.subject[0].isdigit()\<close>: indexing an empty subject
  raises \<^verbatim>\<open>IndexError\<close>.
\<close>

definition discard_guard :: "event option \<Rightarrow> exn + bool" where
  "discard_guard trigger_event =
     (case trigger_event of
        None \<Rightarrow> Inr True
      | Some ev \<Rightarrow>
          (case subject ev of
             [] \<Rightarrow> Inl IndexError
           | c # _ \<Rightarrow> Inr (isdigit c)))"

text \<open>
  The argument \<open>trigger_event\<close> is what \<^verbatim>\<open>get_event()\<close> returns (\<open>None\<close>: no event). Both
  \<^verbatim>\<open>connect\<close> and \<^verbatim>\<open>get_event\<close> are taken to return; so are \<^verbatim>\<open>print\<close> and \<^verbatim>\<open>time.sleep\<close>.
\<close>

definition main :: "('w, 'v) pysros \<Rightarrow> event option \<Rightarrow> ('w, unit) io" where
  "main connection trigger_event =
     io_bind (io_emit Connect) (\<lambda>_.
     io_bind (io_emit GetEvent) (\<lambda>_.
     case discard_guard trigger_event of
       Inl e \<Rightarrow> io_raise e
     | Inr True \<Rightarrow> io_emit Disconnect
     | Inr False \<Rightarrow>
         io_bind
           (if eventid (the trigger_event) = 2039
            then backwardsHandler connection (subject (the trigger_event))
            else if eventid (the trigger_event) = 2038
            then establishedHandler connection (subject (the trigger_event))
            else io_return ())
           (\<lambda>_. io_emit Disconnect)))"

section \<open>Observing a run\<close>

text \<open>
  The interfaces whose \<^verbatim>\<open>admin-state\<close> a call of \<^verbatim>\<open>candidate.set\<close> writes: the keys under
  \<^verbatim>\<open>"nokia-conf:interface"\<close> of its payload. Every other action mutates no interface.
\<close>

fun mutated_interfaces :: "action \<Rightarrow> string list" where
  "mutated_interfaces (CandidateSet path (Dict kvs)) =
     (case map_of kvs ''nokia-conf:interface'' of
        Some (Dict entries) \<Rightarrow> map fst entries
      | _ \<Rightarrow> [])"
| "mutated_interfaces _ = []"

fun is_candidate_set :: "action \<Rightarrow> bool" where
  "is_candidate_set (CandidateSet path payload) = True"
| "is_candidate_set _ = False"

fun is_sleep :: "action \<Rightarrow> bool" where
  "is_sleep (Sleep n) = True"
| "is_sleep _ = False"

text \<open>The interface queries of a run, its pauses and its mutations, in program order.\<close>

fun is_interface_step :: "action \<Rightarrow> bool" where
  "is_interface_step (Sleep n) = True"
| "is_interface_step (CandidateSet path payload) = True"
| "is_interface_step (RunningGet path flt) = (path = interface_state_path)"
| "is_interface_step _ = False"

definition interface_steps :: "action list \<Rightarrow> action list" where
  "interface_steps tr = filter is_interface_step tr"

text \<open>
  \<open>trace_inv P Q m\<close>: from every device state, each action of \<open>m\<close> satisfies \<open>P\<close> and a
  returned value satisfies \<open>Q\<close>.
\<close>

definition trace_inv :: "(action \<Rightarrow> bool) \<Rightarrow> ('a \<Rightarrow> bool) \<Rightarrow> ('w, 'a) io \<Rightarrow> bool" where
  "trace_inv P Q m \<longleftrightarrow>
     (\<forall>w. case m w of (r, tr, w') \<Rightarrow>
        (\<forall>a \<in> set tr. P a) \<and> (case r of Inl e \<Rightarrow> True | Inr x \<Rightarrow> Q x))"

text \<open>The actions a handler can perform.\<close>

inductive handler_action :: "action \<Rightarrow> bool" where
  "handler_action (PrintLog s)"
| "handler_action (Print s)"
| "handler_action (PrintVal v)"
| "handler_action (PrintTable ks info header)"
| "handler_action (Sleep n)"
| "handler_action (RunningGet path flt)"
| "\<forall>i \<in> set names. sublist ''tester'' i \<Longrightarrow>
   handler_action (CandidateSet cfg_path
     (Dict [(''nokia-conf:interface'', Dict (cfg_payload_loop names change []))]))"

section \<open>A small router for concrete runs\<close>

text \<open>
  A device to run the script on: its state is the list of interfaces with their operational
  state, a query with filter \<^verbatim>\<open>{"oper-state": s}\<close> returns the interfaces in state \<open>s\<close>,
  and a configuration change takes effect at once. The established and the configured
  neighbours are fixed. \<open>alist_of\<close> is \<^verbatim>\<open>dict(xs)\<close>.
\<close>

definition alist_of :: "(string \<times> 'v) list \<Rightarrow> (string, 'v) alist" where
  "alist_of xs = foldl (\<lambda>d (k, v). DAList.update k v d) DAList.empty xs"

definition lab_oper_after :: "pyval \<Rightarrow> string \<Rightarrow> string \<Rightarrow> string" where
  "lab_oper_after payload name oper =
     (case payload of
        Dict [(k, Dict entries)] \<Rightarrow>
          (case map_of entries name of
             Some (Dict [n, (a, Str change)]) \<Rightarrow> if change = ''enable'' then ''up'' else ''down''
           | _ \<Rightarrow> oper)
      | _ \<Rightarrow> oper)"

definition lab_router ::
  "string list \<Rightarrow> string list \<Rightarrow> ((string \<times> string) list, string) pysros" where
  "lab_router established configured =
     \<lparr> running_get = (\<lambda>w path flt.
         if path = interface_state_path
         then Inr (alist_of (filter (\<lambda>(name, oper). flt = Dict [(''oper-state'', Str oper)]) w))
         else if path = bgp_state_path
         then Inr (alist_of (map (\<lambda>p. (p, ''Established'')) established))
         else Inr (alist_of (map (\<lambda>p. (p, ''rr'')) configured))),
       candidate_set = (\<lambda>w path payload.
         (None, map (\<lambda>(name, oper). (name, lab_oper_after payload name oper)) w)),
       time_sleep = (\<lambda>w n. w),
       table_print = (\<lambda>rows info header. None) \<rparr>"

definition lab_interfaces :: "(string \<times> string) list" where
  "lab_interfaces = [(''tester1'', ''up''), (''system'', ''up''), (''tester2'', ''down'')]"

definition peer_event :: "int \<Rightarrow> event" where
  "peer_event n = \<lparr>eventid = n, subject = ''Peer 1: 10.1.5.5''\<rparr>"

text \<open>The actions of a whole invocation.\<close>

definition main_action :: "action \<Rightarrow> bool" where
  "main_action a \<longleftrightarrow> a = Connect \<or> a = GetEvent \<or> a = Disconnect \<or> handler_action a"

text \<open>
  The run of \<^verbatim>\<open>main\<close> that dispatches to \<open>handler\<close> and nothing else: connect, fetch the
  event, run the handler, and disconnect if the handler returns.
\<close>

definition dispatch_run :: "('w, unit) io \<Rightarrow> ('w, unit) io" where
  "dispatch_run handler = (\<lambda>w.
     case handler w of
       (Inl e, tr, w') \<Rightarrow> (Inl e, Connect # GetEvent # tr, w')
     | (Inr u, tr, w') \<Rightarrow> (Inr (), Connect # GetEvent # tr @ [Disconnect], w'))"

text \<open>A connection on which every query raises.\<close>

definition no_device :: "((string \<times> string) list, string) pysros" where
  "no_device = (lab_router [] [''10.1.5.5''])
     \<lparr> running_get := (\<lambda>w path flt. Inl (OtherError ''LookupError'')) \<rparr>"

text \<open>A connection whose \<^verbatim>\<open>candidate.set\<close> raises \<open>error\<close> and changes nothing.\<close>

definition rejecting_router :: "exn \<Rightarrow> ((string \<times> string) list, string) pysros" where
  "rejecting_router error = (lab_router [] [''10.1.5.5''])
     \<lparr> candidate_set := (\<lambda>w path payload. (Some error, w)) \<rparr>"

text \<open>
  The errors of \<^verbatim>\<open>candidate.set\<close> that \<^verbatim>\<open>modify_downstream_interfaces\<close> logs: a \<^verbatim>\<open>TypeError\<close>,
  and an \<^verbatim>\<open>SrosMgmtError\<close> as pySROS raises it, with the message as the one element of
  \<^verbatim>\<open>args\<close>.
\<close>

fun logged_error :: "exn \<Rightarrow> bool" where
  "logged_error (SrosMgmtError [detail]) = True"
| "logged_error (TypeError msg) = True"
| "logged_error _ = False"

text \<open>
  The same connection with a \<^verbatim>\<open>candidate.set\<close> that never raises and leaves the device in the
  state the original call leaves it in.
\<close>

definition accepting :: "('w, 'v) pysros \<Rightarrow> ('w, 'v) pysros" where
  "accepting connection =
     connection\<lparr> candidate_set :=
       (\<lambda>w path payload. (None, snd (candidate_set connection w path payload))) \<rparr>"

text \<open>Two computations with the same result and the same final device state.\<close>

definition same_outcome :: "('w, 'a) io \<Rightarrow> ('w, 'a) io \<Rightarrow> bool" where
  "same_outcome m m' \<longleftrightarrow>
     (\<forall>w. fst (m w) = fst (m' w) \<and> snd (snd (m w)) = snd (snd (m' w)))"

section \<open>Dictionaries and the three loops\<close>

lemma impl_of_update:
  "DAList.impl_of (DAList.update k v al) = AList.update k v (DAList.impl_of al)"
  by (rule DAList.update.rep_eq)

lemma impl_of_empty: "DAList.impl_of DAList.empty = []"
  by (rule DAList.empty.rep_eq)

lemma update_fresh: "k \<notin> fst ` set al \<Longrightarrow> AList.update k v al = al @ [(k, v)]"
  by (induction al) auto

text \<open>
  The selection loop keeps exactly the entries whose key contains \<^verbatim>\<open>tester\<close>, in the order
  of the query result.
\<close>

lemma find_interfaces_loop_impl:
  "distinct (map fst xs) \<Longrightarrow> fst ` set xs \<inter> fst ` set (DAList.impl_of acc) = {} \<Longrightarrow>
   DAList.impl_of (find_interfaces_loop xs acc) =
     DAList.impl_of acc @ filter (\<lambda>(interface, state). sublist ''tester'' interface) xs"
proof (induction xs acc rule: find_interfaces_loop.induct)
  case (1 acc)
  then show ?case by simp
next
  case (2 interface state rest acc)
  show ?case
  proof (cases "sublist ''tester'' interface")
    case False
    with 2 show ?thesis by auto
  next
    case True
    have fresh: "interface \<notin> fst ` set (DAList.impl_of acc)"
      using "2.prems"(2) by auto
    have upd: "DAList.impl_of (DAList.update interface state acc) =
                 DAList.impl_of acc @ [(interface, state)]"
      by (simp add: impl_of_update update_fresh[OF fresh])
    have "fst ` set rest \<inter> fst ` set (DAList.impl_of (DAList.update interface state acc)) = {}"
      using "2.prems" by (auto simp: upd)
    with 2 True show ?thesis by (simp add: upd)
  qed
qed

lemma find_interfaces_loop_filter:
  "DAList.impl_of (find_interfaces_loop (DAList.impl_of base) DAList.empty) =
     filter (\<lambda>(interface, state). sublist ''tester'' interface) (DAList.impl_of base)"
  using find_interfaces_loop_impl[of "DAList.impl_of base" DAList.empty]
  by (simp add: impl_of_empty)

lemma count_loop_length:
  "count_loop ks S n = n + int (length (filter (\<lambda>k. DAList.lookup S k \<noteq> None) ks))"
  by (induction ks S n rule: count_loop.induct) auto

lemma cfg_payload_loop_keys:
  "fst ` set (cfg_payload_loop ks change entries) = set ks \<union> fst ` set entries"
  by (induction ks change entries rule: cfg_payload_loop.induct) (auto simp: AList.dom_update)

section \<open>Rules for the actions of a computation\<close>

lemma trace_inv_return: "Q x \<Longrightarrow> trace_inv P Q (io_return x)"
  by (simp add: trace_inv_def io_return_def)

lemma trace_inv_raise: "trace_inv P Q (io_raise e)"
  by (simp add: trace_inv_def io_raise_def)

lemma trace_inv_emit: "P a \<Longrightarrow> Q () \<Longrightarrow> trace_inv P Q (io_emit a)"
  by (simp add: trace_inv_def io_emit_def)

lemma trace_inv_bind:
  assumes "trace_inv P R m" and "\<And>x. R x \<Longrightarrow> trace_inv P Q (f x)"
  shows "trace_inv P Q (io_bind m f)"
  unfolding trace_inv_def io_bind_def
proof (intro allI)
  fix w
  obtain r tr w' where m: "m w = (r, tr, w')" by (cases "m w") auto
  from assms(1) m have tr: "\<forall>a\<in>set tr. P a" and r: "case r of Inl e \<Rightarrow> True | Inr x \<Rightarrow> R x"
    by (auto simp: trace_inv_def dest: spec[of _ w])
  show "case (case m w of
          (Inl e, tr, w') \<Rightarrow> (Inl e, tr, w')
        | (Inr x, tr, w') \<Rightarrow> (case f x w' of (r, tr', w'') \<Rightarrow> (r, tr @ tr', w''))) of
        (r, tr, w') \<Rightarrow> (\<forall>a\<in>set tr. P a) \<and> (case r of Inl e \<Rightarrow> True | Inr x \<Rightarrow> Q x)"
  proof (cases r)
    case (Inl e)
    with m tr show ?thesis by simp
  next
    case (Inr x)
    with r have "R x" by simp
    from assms(2)[OF this] have "case f x w' of (r, tr, w') \<Rightarrow>
        (\<forall>a\<in>set tr. P a) \<and> (case r of Inl e \<Rightarrow> True | Inr x \<Rightarrow> Q x)"
      by (simp add: trace_inv_def)
    with m tr Inr show ?thesis by (auto split: prod.splits)
  qed
qed

lemma trace_inv_try:
  assumes "trace_inv P Q m" and "\<And>e k. h e = Some k \<Longrightarrow> trace_inv P Q k"
  shows "trace_inv P Q (io_try m h)"
  unfolding trace_inv_def io_try_def
proof (intro allI)
  fix w
  obtain r tr w' where m: "m w = (r, tr, w')" by (cases "m w") auto
  from assms(1) m have tr: "\<forall>a\<in>set tr. P a" and r: "case r of Inl e \<Rightarrow> True | Inr x \<Rightarrow> Q x"
    by (auto simp: trace_inv_def dest: spec[of _ w])
  show "case (case m w of
          (Inr x, tr, w') \<Rightarrow> (Inr x, tr, w')
        | (Inl e, tr, w') \<Rightarrow>
            (case h e of
               None \<Rightarrow> (Inl e, tr, w')
             | Some k \<Rightarrow> (case k w' of (r, tr', w'') \<Rightarrow> (r, tr @ tr', w'')))) of
        (r, tr, w') \<Rightarrow> (\<forall>a\<in>set tr. P a) \<and> (case r of Inl e \<Rightarrow> True | Inr x \<Rightarrow> Q x)"
  proof (cases r)
    case (Inr x)
    with m tr r show ?thesis by simp
  next
    case (Inl e)
    show ?thesis
    proof (cases "h e")
      case None
      with m tr Inl show ?thesis by simp
    next
      case (Some k)
      from assms(2)[OF this] have "case k w' of (r, tr, w') \<Rightarrow>
          (\<forall>a\<in>set tr. P a) \<and> (case r of Inl e \<Rightarrow> True | Inr x \<Rightarrow> Q x)"
        by (simp add: trace_inv_def)
      with m tr Inl Some show ?thesis by (auto split: prod.splits)
    qed
  qed
qed

lemma trace_inv_running_get:
  "P (RunningGet path flt) \<Longrightarrow> trace_inv P (\<lambda>_. True) (io_running_get connection path flt)"
  by (simp add: trace_inv_def io_running_get_def split: sum.splits)

lemma trace_inv_candidate_set:
  "P (CandidateSet path payload) \<Longrightarrow> Q () \<Longrightarrow> trace_inv P Q (io_candidate_set connection path payload)"
  by (auto simp: trace_inv_def io_candidate_set_def split: prod.splits option.splits)

lemma trace_inv_sleep: "P (Sleep n) \<Longrightarrow> Q () \<Longrightarrow> trace_inv P Q (io_sleep connection n)"
  by (simp add: trace_inv_def io_sleep_def)

lemma trace_inv_print_table:
  "P (PrintTable (map fst (DAList.impl_of rows)) info header) \<Longrightarrow> Q () \<Longrightarrow>
   trace_inv P Q (print_table connection rows info header)"
  by (simp add: trace_inv_def print_table_def split: option.splits)

lemma trace_inv_if:
  "(b \<Longrightarrow> trace_inv P Q m1) \<Longrightarrow> (\<not> b \<Longrightarrow> trace_inv P Q m2) \<Longrightarrow>
   trace_inv P Q (if b then m1 else m2)"
  by simp

lemma find_interfaces_actions:
  "trace_inv handler_action (\<lambda>d. \<forall>i \<in> set (map fst (DAList.impl_of d)). sublist ''tester'' i)
     (find_interfaces connection f)"
  unfolding find_interfaces_def
  by (rule trace_inv_bind[OF trace_inv_running_get])
     (auto simp: find_interfaces_loop_filter intro!: trace_inv_return handler_action.intros)

lemma count_actions:
  "trace_inv handler_action (\<lambda>_. True) (count_ebgp_sessions_established connection)"
  unfolding count_ebgp_sessions_established_def
  by (intro trace_inv_bind[OF trace_inv_running_get] trace_inv_return handler_action.intros TrueI)

lemma modify_actions:
  assumes "\<forall>i \<in> set (map fst (DAList.impl_of active)). sublist ''tester'' i"
  shows "trace_inv handler_action (\<lambda>_. True)
           (modify_downstream_interfaces connection active change)"
  unfolding modify_downstream_interfaces_def Let_def py_print_def
  by (auto intro!: trace_inv_raise trace_inv_bind[where R="\<lambda>_. True"] trace_inv_emit
        trace_inv_return trace_inv_try trace_inv_candidate_set handler_action.intros assms
        split: exn.splits sum.splits)

lemma verify_actions:
  "trace_inv handler_action (\<lambda>_. True)
     (io_bind (find_interfaces connection f)
        (\<lambda>inactive_interfaces.
           if DAList.impl_of inactive_interfaces \<noteq> []
           then print_table connection inactive_interfaces info header
           else io_return ()))"
  by (intro trace_inv_bind[OF find_interfaces_actions] trace_inv_if trace_inv_print_table
        trace_inv_return handler_action.intros TrueI)

lemma apply_actions:
  assumes "\<forall>i \<in> set (map fst (DAList.impl_of active)). sublist ''tester'' i"
  shows "trace_inv handler_action (\<lambda>_. True)
     (io_bind (print_table connection active info header) (\<lambda>_.
      io_bind (io_sleep connection 1) (\<lambda>_.
      io_bind (modify_downstream_interfaces connection active change) (\<lambda>_.
      io_bind (io_sleep connection 1) (\<lambda>_.
      io_bind (find_interfaces connection f)
        (\<lambda>inactive_interfaces.
           if DAList.impl_of inactive_interfaces \<noteq> []
           then print_table connection inactive_interfaces info' header'
           else io_return ()))))))"
  by (intro trace_inv_bind[where R="\<lambda>_. True"] trace_inv_print_table trace_inv_sleep
        modify_actions[OF assms] verify_actions handler_action.intros TrueI)

lemma backwardsHandler_actions:
  "trace_inv handler_action (\<lambda>_. True) (backwardsHandler connection subj)"
  unfolding backwardsHandler_def print_log_def py_print_def
  by (intro trace_inv_bind[where R="\<lambda>_. True" and m="io_emit _"]
        trace_inv_bind[OF count_actions] trace_inv_bind[OF find_interfaces_actions]
        trace_inv_if apply_actions trace_inv_emit handler_action.intros TrueI)

lemma establishedHandler_actions:
  "trace_inv handler_action (\<lambda>_. True) (establishedHandler connection subj)"
  unfolding establishedHandler_def print_log_def py_print_def
  by (intro trace_inv_bind[where R="\<lambda>_. True" and m="io_emit _"]
        trace_inv_bind[OF count_actions] trace_inv_bind[OF find_interfaces_actions]
        trace_inv_if apply_actions trace_inv_emit trace_inv_return handler_action.intros TrueI)

section \<open>C1: only interfaces tagged \<^verbatim>\<open>tester\<close> are selected or mutated\<close>

lemma trace_inv_mono:
  assumes "trace_inv P Q m" and "\<And>a. P a \<Longrightarrow> P' a"
  shows "trace_inv P' Q m"
  unfolding trace_inv_def
proof (intro allI)
  fix w
  obtain r tr w' where m: "m w = (r, tr, w')" by (cases "m w") auto
  from assms(1) m have "\<forall>a\<in>set tr. P a" and "case r of Inl e \<Rightarrow> True | Inr x \<Rightarrow> Q x"
    by (auto simp: trace_inv_def dest: spec[of _ w])
  with m assms(2) show "case m w of (r, tr, w') \<Rightarrow>
      (\<forall>a\<in>set tr. P' a) \<and> (case r of Inl e \<Rightarrow> True | Inr x \<Rightarrow> Q x)"
    by auto
qed

lemma main_actions: "trace_inv main_action (\<lambda>_. True) (main connection trigger_event)"
proof -
  have h1: "trace_inv main_action (\<lambda>_. True) (backwardsHandler connection s)" for s
    by (rule trace_inv_mono[OF backwardsHandler_actions]) (simp add: main_action_def)
  have h2: "trace_inv main_action (\<lambda>_. True) (establishedHandler connection s)" for s
    by (rule trace_inv_mono[OF establishedHandler_actions]) (simp add: main_action_def)
  show ?thesis
    unfolding main_def
    by (auto intro!: trace_inv_bind[where R="\<lambda>_. True"] trace_inv_emit trace_inv_raise
          trace_inv_return h1 h2 simp: main_action_def split: sum.splits bool.splits)
qed

lemma handler_action_tagged:
  "handler_action a \<Longrightarrow> interface \<in> set (mutated_interfaces a) \<Longrightarrow> sublist ''tester'' interface"
proof (induction rule: handler_action.induct)
  case (7 names change)
  from 7(2) have "interface \<in> fst ` set (cfg_payload_loop names change [])" by simp
  then have "interface \<in> set names" by (simp add: cfg_payload_loop_keys)
  with 7(1) show ?case by blast
qed simp_all

lemma main_action_tagged:
  "main_action a \<Longrightarrow> interface \<in> set (mutated_interfaces a) \<Longrightarrow> sublist ''tester'' interface"
  by (auto simp: main_action_def dest: handler_action_tagged)

text \<open>
  Claim C1. For every connection, device state, filter and trigger event: every interface that
  \<^verbatim>\<open>find_interfaces\<close> returns has a name containing \<^verbatim>\<open>tester\<close>, and every interface whose
  admin-state is written by an action of \<^verbatim>\<open>main\<close> has a name containing \<^verbatim>\<open>tester\<close>.
\<close>

theorem C1_only_tester_interfaces:
  "(\<forall>d tr w'. find_interfaces connection oper_status_filter w = (Inr d, tr, w') \<longrightarrow>
      (\<forall>interface \<in> set (map fst (DAList.impl_of d)). sublist ''tester'' interface))
   \<and> (\<forall>a \<in> set (fst (snd (main connection trigger_event w))).
        \<forall>interface \<in> set (mutated_interfaces a). sublist ''tester'' interface)"
proof (intro conjI allI impI ballI)
  fix d tr w' interface
  assume run: "find_interfaces connection oper_status_filter w = (Inr d, tr, w')"
    and mem: "interface \<in> set (map fst (DAList.impl_of d))"
  from find_interfaces_actions[of connection oper_status_filter] run
  have "\<forall>i \<in> set (map fst (DAList.impl_of d)). sublist ''tester'' i"
    unfolding trace_inv_def by (fastforce dest!: spec[of _ w])
  with mem show "sublist ''tester'' interface" by blast
next
  fix a interface
  assume a: "a \<in> set (fst (snd (main connection trigger_event w)))"
    and mem: "interface \<in> set (mutated_interfaces a)"
  obtain r tr w' where run: "main connection trigger_event w = (r, tr, w')"
    by (cases "main connection trigger_event w") auto
  from main_actions[of connection trigger_event] run have "\<forall>a \<in> set tr. main_action a"
    by (auto simp: trace_inv_def dest!: spec[of _ w])
  with a run have "main_action a" by simp
  from main_action_tagged[OF this mem] show "sublist ''tester'' interface" .
qed

text \<open>
  On the lab router with no established neighbour, a degradation event selects and disables
  \<^verbatim>\<open>tester1\<close> and leaves \<^verbatim>\<open>system\<close> alone.
\<close>

theorem C1_only_tester_interfaces_witness:
  "find_interfaces (lab_router [] [''10.1.5.5'']) ''up'' lab_interfaces =
     (Inr (alist_of [(''tester1'', ''up'')]),
      [RunningGet interface_state_path (Dict [(''oper-state'', Str ''up'')])], lab_interfaces)
   \<and> map fst (DAList.impl_of (alist_of [(''tester1'', ''up'')])) = [''tester1'']
   \<and> concat (map mutated_interfaces
        (fst (snd (main (lab_router [] [''10.1.5.5'']) (Some (peer_event 2039)) lab_interfaces))))
       = [''tester1'']
   \<and> sublist ''tester'' ''tester1''"
proof -
  have sel: "find_interfaces (lab_router [] [''10.1.5.5'']) ''up'' lab_interfaces =
     (Inr (alist_of [(''tester1'', ''up'')]),
      [RunningGet interface_state_path (Dict [(''oper-state'', Str ''up'')])], lab_interfaces)"
    by code_simp
  have keys: "map fst (DAList.impl_of (alist_of [(''tester1'', ''up'')])) = [''tester1'']"
    by code_simp
  have mut: "concat (map mutated_interfaces
        (fst (snd (main (lab_router [] [''10.1.5.5'']) (Some (peer_event 2039)) lab_interfaces))))
       = [''tester1'']"
    by code_simp
  from C1_only_tester_interfaces[of "lab_router [] [''10.1.5.5'']" "''up''" lab_interfaces
      "Some (peer_event 2039)"] sel keys
  have "sublist ''tester'' ''tester1''" by auto
  with sel keys mut show ?thesis by blast
qed

section \<open>Running a sequence of steps\<close>

lemma io_bind_Inr:
  "m w = (Inr x, tr, w') \<Longrightarrow>
   io_bind m f w = (fst (f x w'), tr @ fst (snd (f x w')), snd (snd (f x w')))"
  by (simp add: io_bind_def split: prod.splits)

lemma io_bind_Inl: "m w = (Inl e, tr, w') \<Longrightarrow> io_bind m f w = (Inl e, tr, w')"
  by (simp add: io_bind_def)

lemma io_bindE:
  assumes "io_bind m f w = (r, tr, w')"
  obtains (raised) e where "m w = (Inl e, tr, w')" and "r = Inl e"
  | (returned) x tr1 w1 tr2 where "m w = (Inr x, tr1, w1)" and "f x w1 = (r, tr2, w')"
      and "tr = tr1 @ tr2"
proof -
  obtain r1 tr1 w1 where m: "m w = (r1, tr1, w1)" by (cases "m w") auto
  show thesis
  proof (cases r1)
    case (Inl e)
    with m assms have "m w = (Inl e, tr, w')" and "r = Inl e" by (auto simp: io_bind_def)
    then show thesis by (rule raised)
  next
    case (Inr x)
    obtain r2 tr2 w2 where f: "f x w1 = (r2, tr2, w2)" by (cases "f x w1") auto
    with m Inr assms have "f x w1 = (r, tr2, w')" and "tr = tr1 @ tr2"
      by (auto simp: io_bind_def)
    with m Inr show thesis by (auto intro: returned)
  qed
qed

section \<open>C4: the session counter\<close>

lemma lookup_iff_key: "DAList.lookup S k \<noteq> None \<longleftrightarrow> k \<in> fst ` set (DAList.impl_of S)"
  by (simp add: DAList.lookup.rep_eq map_of_eq_None_iff)

lemma count_loop_card:
  assumes "distinct ks"
  shows "count_loop ks S 0 = int (card {p \<in> set ks. p \<in> fst ` set (DAList.impl_of S)})"
proof -
  have "distinct (filter (\<lambda>k. DAList.lookup S k \<noteq> None) ks)" using assms by simp
  then have "length (filter (\<lambda>k. DAList.lookup S k \<noteq> None) ks)
               = card (set (filter (\<lambda>k. DAList.lookup S k \<noteq> None) ks))"
    by (rule distinct_card[symmetric])
  also have "set (filter (\<lambda>k. DAList.lookup S k \<noteq> None) ks)
               = {p \<in> set ks. p \<in> fst ` set (DAList.impl_of S)}"
    unfolding set_filter using lookup_iff_key[of S] by blast
  finally show ?thesis by (simp add: count_loop_length)
qed

lemma count_run:
  "count_ebgp_sessions_established connection w =
     (case running_get connection w bgp_state_path nb_filter of
        Inl e \<Rightarrow> (Inl e, [RunningGet bgp_state_path nb_filter], w)
      | Inr S \<Rightarrow>
          (case running_get connection w bgp_conf_path ebgp_group_filter of
             Inl e \<Rightarrow> (Inl e, [RunningGet bgp_state_path nb_filter,
                                RunningGet bgp_conf_path ebgp_group_filter], w)
           | Inr C \<Rightarrow> (Inr (count_loop (map fst (DAList.impl_of C)) S 0),
                        [RunningGet bgp_state_path nb_filter,
                         RunningGet bgp_conf_path ebgp_group_filter], w)))"
  by (simp add: count_ebgp_sessions_established_def io_bind_def io_running_get_def io_return_def
        split: sum.splits)

text \<open>
  Claim C4. When the state query returns the dictionary \<open>S\<close> (the neighbours that match the
  \<^verbatim>\<open>Established\<close> filter) and the configuration query returns \<open>C\<close> (the neighbours of
  group \<^verbatim>\<open>rr\<close>), \<^verbatim>\<open>count_ebgp_sessions_established\<close> returns the number of keys of \<open>C\<close> that
  are keys of \<open>S\<close>. The count lies between 0 and the size of \<open>C\<close>, and it is 0, not an
  error, when either dictionary is empty.
\<close>

theorem C4_session_count:
  assumes "running_get connection w bgp_state_path nb_filter = Inr S"
    and "running_get connection w bgp_conf_path ebgp_group_filter = Inr C"
  shows "\<exists>n. count_ebgp_sessions_established connection w =
             (Inr n, [RunningGet bgp_state_path nb_filter,
                      RunningGet bgp_conf_path ebgp_group_filter], w)
     \<and> n = int (card {p \<in> fst ` set (DAList.impl_of C). p \<in> fst ` set (DAList.impl_of S)})
     \<and> 0 \<le> n \<and> n \<le> int (length (DAList.impl_of C))
     \<and> (DAList.impl_of C = [] \<or> DAList.impl_of S = [] \<longrightarrow> n = 0)"
proof -
  let ?K = "{p \<in> fst ` set (DAList.impl_of C). p \<in> fst ` set (DAList.impl_of S)}"
  have run: "count_ebgp_sessions_established connection w =
      (Inr (int (card ?K)), [RunningGet bgp_state_path nb_filter,
                             RunningGet bgp_conf_path ebgp_group_filter], w)"
    using assms count_loop_card[of "map fst (DAList.impl_of C)" S]
    by (simp add: count_run)
  have "card ?K \<le> card (fst ` set (DAList.impl_of C))"
    by (rule card_mono) auto
  also have "\<dots> \<le> length (DAList.impl_of C)"
    using card_length[of "map fst (DAList.impl_of C)"] by simp
  finally have le: "card ?K \<le> length (DAList.impl_of C)" .
  have empty: "DAList.impl_of C = [] \<or> DAList.impl_of S = [] \<Longrightarrow> ?K = {}"
    by auto
  from run le empty show ?thesis by auto
qed

text \<open>Two configured neighbours, one of them established: the count is 1.\<close>

theorem C4_session_count_witness:
  "running_get (lab_router [''10.1.5.5'', ''10.9.9.9''] [''10.1.5.5'', ''10.1.5.6''])
      lab_interfaces bgp_state_path nb_filter
     = Inr (alist_of [(''10.1.5.5'', ''Established''), (''10.9.9.9'', ''Established'')])
   \<and> running_get (lab_router [''10.1.5.5'', ''10.9.9.9''] [''10.1.5.5'', ''10.1.5.6''])
      lab_interfaces bgp_conf_path ebgp_group_filter
     = Inr (alist_of [(''10.1.5.5'', ''rr''), (''10.1.5.6'', ''rr'')])
   \<and> fst (count_ebgp_sessions_established
        (lab_router [''10.1.5.5'', ''10.9.9.9''] [''10.1.5.5'', ''10.1.5.6'']) lab_interfaces)
     = Inr 1
   \<and> (1::int) = int (card {p \<in> fst ` set (DAList.impl_of
                                   (alist_of [(''10.1.5.5'', ''rr''), (''10.1.5.6'', ''rr'')])).
                     p \<in> fst ` set (DAList.impl_of
                           (alist_of [(''10.1.5.5'', ''Established''),
                                      (''10.9.9.9'', ''Established'')]))})"
proof -
  let ?L = "lab_router [''10.1.5.5'', ''10.9.9.9''] [''10.1.5.5'', ''10.1.5.6'']"
  have s: "running_get ?L lab_interfaces bgp_state_path nb_filter
     = Inr (alist_of [(''10.1.5.5'', ''Established''), (''10.9.9.9'', ''Established'')])"
    by code_simp
  have c: "running_get ?L lab_interfaces bgp_conf_path ebgp_group_filter
     = Inr (alist_of [(''10.1.5.5'', ''rr''), (''10.1.5.6'', ''rr'')])"
    by code_simp
  have n: "fst (count_ebgp_sessions_established ?L lab_interfaces) = Inr 1"
    by code_simp
  from C4_session_count[OF s c] n
  have "(1::int) = int (card {p \<in> fst ` set (DAList.impl_of
                                   (alist_of [(''10.1.5.5'', ''rr''), (''10.1.5.6'', ''rr'')])).
                     p \<in> fst ` set (DAList.impl_of
                           (alist_of [(''10.1.5.5'', ''Established''),
                                      (''10.9.9.9'', ''Established'')]))})"
    by auto
  with s c n show ?thesis by blast
qed

section \<open>C2 and C3: the threshold decides whether a handler acts\<close>

lemma count_frame:
  assumes "count_ebgp_sessions_established connection w = (r, tr, w')"
  shows "w' = w" and "filter is_candidate_set tr = []" and "filter is_sleep tr = []"
  using assms by (auto simp: count_run split: sum.splits)

lemma in_trace_bind_left:
  "a \<in> set (fst (snd (m w))) \<Longrightarrow> a \<in> set (fst (snd (io_bind m f w)))"
  by (cases "m w") (auto simp: io_bind_def split: sum.splits prod.splits)

lemma in_trace_bind_right:
  "m w = (Inr x, tr, w') \<Longrightarrow> a \<in> set (fst (snd (f x w'))) \<Longrightarrow>
   a \<in> set (fst (snd (io_bind m f w)))"
  by (simp add: io_bind_Inr)

lemma io_bind_emit:
  "io_bind (io_emit a) f w = (fst (f () w), a # fst (snd (f () w)), snd (snd (f () w)))"
  by (simp add: io_bind_def io_emit_def split: prod.splits)

lemma io_bind_sleep:
  "io_bind (io_sleep connection n) f w =
     (fst (f () (time_sleep connection w n)),
      Sleep n # fst (snd (f () (time_sleep connection w n))),
      snd (snd (f () (time_sleep connection w n))))"
  by (simp add: io_bind_def io_sleep_def split: prod.splits)

lemma cfg_payload_loop_nonempty: "ks \<noteq> [] \<Longrightarrow> cfg_payload_loop ks change [] \<noteq> []"
proof
  assume "ks \<noteq> []" and "cfg_payload_loop ks change [] = []"
  with cfg_payload_loop_keys[of ks change "[]"] show False by simp
qed

lemma modify_sets:
  assumes "DAList.impl_of active \<noteq> []" and "change = ''enable'' \<or> change = ''disable''"
  shows "CandidateSet cfg_path
           (Dict [(''nokia-conf:interface'',
                   Dict (cfg_payload_loop (map fst (DAList.impl_of active)) change []))])
         \<in> set (fst (snd (modify_downstream_interfaces connection active change w)))"
proof -
  have ne: "cfg_payload_loop (map fst (DAList.impl_of active)) change [] \<noteq> []"
    using assms(1) by (simp add: cfg_payload_loop_nonempty)
  have set1: "CandidateSet cfg_path payload
      \<in> set (fst (snd (io_try (io_candidate_set connection cfg_path payload) h w')))"
    for payload h w'
    by (auto simp: io_try_def io_candidate_set_def split: prod.splits option.splits sum.splits)
  show ?thesis
    using assms(2) ne
    unfolding modify_downstream_interfaces_def Let_def py_print_def
    by (auto simp: io_bind_emit intro!: in_trace_bind_left set1)
qed

lemma find_interfaces_run:
  "find_interfaces connection f w =
     (case running_get connection w interface_state_path (Dict [(''oper-state'', Str f)]) of
        Inl e \<Rightarrow> (Inl e, [RunningGet interface_state_path (Dict [(''oper-state'', Str f)])], w)
      | Inr base \<Rightarrow>
          (Inr (find_interfaces_loop (DAList.impl_of base) DAList.empty),
           [RunningGet interface_state_path (Dict [(''oper-state'', Str f)])], w))"
  by (simp add: find_interfaces_def io_bind_def io_running_get_def io_return_def split: sum.splits)

lemma find_interfaces_frame:
  assumes "find_interfaces connection f w = (r, tr, w')"
  shows "w' = w" and "tr = [RunningGet interface_state_path (Dict [(''oper-state'', Str f)])]"
  using assms by (auto simp: find_interfaces_run split: sum.splits)

text \<open>
  Claim C2. In \<^verbatim>\<open>backwardsHandler\<close> (event 2039), let the session counter return \<open>n\<close>. The
  threshold \<^verbatim>\<open>MIN_NUM_ACTIVE_BGP_SESSIONS\<close> is 1. If \<open>n\<close> is at least the threshold, the handler
  returns having called \<^verbatim>\<open>candidate.set\<close> not once and leaves the device as it found it. If
  \<open>n\<close> is below the threshold (\<open>n = 0\<close>), the handler runs the interface selection with filter
  \<^verbatim>\<open>up\<close>, and when the selection is not empty and the table before the change is printed, it
  calls \<^verbatim>\<open>candidate.set\<close> with \<^verbatim>\<open>admin-state: disable\<close> for the selected interfaces.
\<close>

theorem C2_degradation_threshold:
  assumes "count_ebgp_sessions_established connection w = (Inr n, ctr, w1)"
  shows "MIN_NUM_ACTIVE_BGP_SESSIONS = 1
   \<and> (MIN_NUM_ACTIVE_BGP_SESSIONS \<le> n \<longrightarrow>
        fst (backwardsHandler connection subj w) = Inr ()
        \<and> filter is_candidate_set (fst (snd (backwardsHandler connection subj w))) = []
        \<and> snd (snd (backwardsHandler connection subj w)) = w)
   \<and> (n < MIN_NUM_ACTIVE_BGP_SESSIONS \<longrightarrow>
        RunningGet interface_state_path (Dict [(''oper-state'', Str ''up'')])
          \<in> set (fst (snd (backwardsHandler connection subj w)))
        \<and> (\<forall>d ftr w2.
              find_interfaces connection ''up'' w = (Inr d, ftr, w2)
              \<and> DAList.impl_of d \<noteq> []
              \<and> table_print connection (DAList.impl_of d) ''Up'' ''(up -> down) [BEFORE]'' = None
              \<longrightarrow> CandidateSet cfg_path
                     (Dict [(''nokia-conf:interface'',
                             Dict (cfg_payload_loop (map fst (DAList.impl_of d)) ''disable'' []))])
                   \<in> set (fst (snd (backwardsHandler connection subj w)))))"
proof (intro conjI impI allI)
  show "MIN_NUM_ACTIVE_BGP_SESSIONS = 1" by (simp add: MIN_NUM_ACTIVE_BGP_SESSIONS_def)
next
  note fr = count_frame[OF assms]
  assume ge: "MIN_NUM_ACTIVE_BGP_SESSIONS \<le> n"
  have run: "backwardsHandler connection subj w =
      (Inr (), PrintLog (''received a BGP session degradation event for BGP Peer :'' @ nl @ tab
                @ subj @ '','' @ nl
                @ ''We need at least a single uplink bgp peer! Checking other peerings.'')
               # ctr @ [PrintLog (found_message n (''Situation is manageable.'' @ nl))], w)"
    using assms ge fr(1)
    by (simp add: backwardsHandler_def io_bind_def print_log_def io_emit_def)
  show "fst (backwardsHandler connection subj w) = Inr ()" by (simp add: run)
  show "filter is_candidate_set (fst (snd (backwardsHandler connection subj w))) = []"
    using fr(2) by (simp add: run)
  show "snd (snd (backwardsHandler connection subj w)) = w" by (simp add: run)
next
  note fr = count_frame[OF assms]
  assume lt: "n < MIN_NUM_ACTIVE_BGP_SESSIONS"
  let ?rest = "\<lambda>active_interfaces.
                 if DAList.impl_of active_interfaces \<noteq> []
                 then
                   io_bind (print_table connection active_interfaces ''Up''
                              ''(up -> down) [BEFORE]'') (\<lambda>_.
                   io_bind (io_sleep connection 1) (\<lambda>_.
                   io_bind (modify_downstream_interfaces connection active_interfaces
                              ''disable'') (\<lambda>_.
                   io_bind (io_sleep connection 1) (\<lambda>_.
                   io_bind (find_interfaces connection ''down'')
                     (\<lambda>inactive_interfaces.
                        if DAList.impl_of inactive_interfaces \<noteq> []
                        then print_table connection inactive_interfaces ''Down''
                               ''(up -> down) [AFTER]''
                        else io_return ())))))
                 else py_print ''No changes required, interfaces already down.''"
  have mem: "a \<in> set (fst (snd (io_bind (find_interfaces connection ''up'') ?rest w))) \<Longrightarrow>
      a \<in> set (fst (snd (backwardsHandler connection subj w)))" for a
    using assms lt fr(1)
    by (simp add: backwardsHandler_def print_log_def io_bind_emit
          io_bind_Inr[where m="count_ebgp_sessions_established connection", OF assms])
  show "RunningGet interface_state_path (Dict [(''oper-state'', Str ''up'')])
          \<in> set (fst (snd (backwardsHandler connection subj w)))"
    by (rule mem, rule in_trace_bind_left) (simp add: find_interfaces_run split: sum.splits)
  fix d ftr w2
  assume a: "find_interfaces connection ''up'' w = (Inr d, ftr, w2)
              \<and> DAList.impl_of d \<noteq> []
              \<and> table_print connection (DAList.impl_of d) ''Up'' ''(up -> down) [BEFORE]'' = None"
  then have sel: "find_interfaces connection ''up'' w = (Inr d, ftr, w2)"
    and ne: "DAList.impl_of d \<noteq> []"
    and tp: "print_table connection d ''Up'' ''(up -> down) [BEFORE]'' w2 =
               (Inr (), [PrintTable (map fst (DAList.impl_of d)) ''Up'' ''(up -> down) [BEFORE]''], w2)"
    by (simp_all add: print_table_def)
  show "CandidateSet cfg_path
          (Dict [(''nokia-conf:interface'',
                  Dict (cfg_payload_loop (map fst (DAList.impl_of d)) ''disable'' []))])
        \<in> set (fst (snd (backwardsHandler connection subj w)))"
  proof (rule mem, rule in_trace_bind_right, rule sel)
    have "CandidateSet cfg_path
            (Dict [(''nokia-conf:interface'',
                    Dict (cfg_payload_loop (map fst (DAList.impl_of d)) ''disable'' []))])
          \<in> set (fst (snd (io_bind (modify_downstream_interfaces connection d ''disable'') k w3)))"
      for k :: "bool \<Rightarrow> ('a, unit) io" and w3
      by (rule in_trace_bind_left, rule modify_sets[OF ne]) simp
    then show "CandidateSet cfg_path
            (Dict [(''nokia-conf:interface'',
                    Dict (cfg_payload_loop (map fst (DAList.impl_of d)) ''disable'' []))])
          \<in> set (fst (snd (?rest d w2)))"
      using ne
      by (simp add: io_bind_Inr[where m="print_table connection d ''Up'' ''(up -> down) [BEFORE]''",
            OF tp] io_bind_sleep)
  qed
qed

text \<open>
  With no established neighbour the count is 0 and \<^verbatim>\<open>tester1\<close> is disabled; with the one
  configured neighbour established the count is 1 and nothing is set.
\<close>

theorem C2_degradation_threshold_witness:
  "count_ebgp_sessions_established (lab_router [] [''10.1.5.5'']) lab_interfaces =
     (Inr 0, [RunningGet bgp_state_path nb_filter, RunningGet bgp_conf_path ebgp_group_filter],
      lab_interfaces)
   \<and> (0::int) < MIN_NUM_ACTIVE_BGP_SESSIONS
   \<and> find_interfaces (lab_router [] [''10.1.5.5'']) ''up'' lab_interfaces =
       (Inr (alist_of [(''tester1'', ''up'')]),
        [RunningGet interface_state_path (Dict [(''oper-state'', Str ''up'')])], lab_interfaces)
   \<and> DAList.impl_of (alist_of [(''tester1'', ''up'')]) \<noteq> []
   \<and> table_print (lab_router [] [''10.1.5.5''])
        (DAList.impl_of (alist_of [(''tester1'', ''up'')])) ''Up'' ''(up -> down) [BEFORE]'' = None
   \<and> CandidateSet cfg_path
        (Dict [(''nokia-conf:interface'',
           Dict [(''tester1'', Dict [(''interface-name'', Str ''tester1''),
                                     (''admin-state'', Str ''disable'')])])])
       \<in> set (fst (snd (backwardsHandler (lab_router [] [''10.1.5.5'']) ''Peer 1: 10.1.5.5''
                           lab_interfaces)))
   \<and> count_ebgp_sessions_established (lab_router [''10.1.5.5''] [''10.1.5.5'']) lab_interfaces =
     (Inr 1, [RunningGet bgp_state_path nb_filter, RunningGet bgp_conf_path ebgp_group_filter],
      lab_interfaces)
   \<and> MIN_NUM_ACTIVE_BGP_SESSIONS \<le> 1
   \<and> fst (backwardsHandler (lab_router [''10.1.5.5''] [''10.1.5.5'']) ''Peer 1: 10.1.5.5''
            lab_interfaces) = Inr ()
   \<and> filter is_candidate_set
        (fst (snd (backwardsHandler (lab_router [''10.1.5.5''] [''10.1.5.5''])
                     ''Peer 1: 10.1.5.5'' lab_interfaces))) = []"
proof -
  let ?L0 = "lab_router [] [''10.1.5.5'']"
  let ?L1 = "lab_router [''10.1.5.5''] [''10.1.5.5'']"
  have c0: "count_ebgp_sessions_established ?L0 lab_interfaces =
     (Inr 0, [RunningGet bgp_state_path nb_filter, RunningGet bgp_conf_path ebgp_group_filter],
      lab_interfaces)"
    by code_simp
  have c1: "count_ebgp_sessions_established ?L1 lab_interfaces =
     (Inr 1, [RunningGet bgp_state_path nb_filter, RunningGet bgp_conf_path ebgp_group_filter],
      lab_interfaces)"
    by code_simp
  have sel: "find_interfaces ?L0 ''up'' lab_interfaces =
       (Inr (alist_of [(''tester1'', ''up'')]),
        [RunningGet interface_state_path (Dict [(''oper-state'', Str ''up'')])], lab_interfaces)"
    by code_simp
  have ne: "DAList.impl_of (alist_of [(''tester1'', ''up'')]) \<noteq> []"
    by code_simp
  have tp: "table_print ?L0 (DAList.impl_of (alist_of [(''tester1'', ''up'')])) ''Up''
              ''(up -> down) [BEFORE]'' = None"
    by (simp add: lab_router_def)
  have pl: "cfg_payload_loop (map fst (DAList.impl_of (alist_of [(''tester1'', ''up'')])))
              ''disable'' [] =
            [(''tester1'', Dict [(''interface-name'', Str ''tester1''),
                                 (''admin-state'', Str ''disable'')])]"
    by code_simp
  have lt: "(0::int) < MIN_NUM_ACTIVE_BGP_SESSIONS" and ge: "MIN_NUM_ACTIVE_BGP_SESSIONS \<le> 1"
    by (simp_all add: MIN_NUM_ACTIVE_BGP_SESSIONS_def)
  from C2_degradation_threshold[OF c0, of "''Peer 1: 10.1.5.5''"] lt sel ne tp
  have m0: "CandidateSet cfg_path
        (Dict [(''nokia-conf:interface'',
           Dict (cfg_payload_loop (map fst (DAList.impl_of (alist_of [(''tester1'', ''up'')])))
              ''disable'' []))])
       \<in> set (fst (snd (backwardsHandler ?L0 ''Peer 1: 10.1.5.5'' lab_interfaces)))"
    by blast
  from C2_degradation_threshold[OF c1, of "''Peer 1: 10.1.5.5''"] ge
  have m1: "fst (backwardsHandler ?L1 ''Peer 1: 10.1.5.5'' lab_interfaces) = Inr ()"
    "filter is_candidate_set
        (fst (snd (backwardsHandler ?L1 ''Peer 1: 10.1.5.5'' lab_interfaces))) = []"
    by blast+
  from c0 c1 lt ge sel ne tp m0[unfolded pl] m1 show ?thesis by blast
qed

text \<open>
  Claim C3. In \<^verbatim>\<open>establishedHandler\<close> (event 2038), if the session counter returns a count
  below \<^verbatim>\<open>MIN_NUM_ACTIVE_BGP_SESSIONS\<close>, the handler returns after its first log line and the
  two counter queries, with no call of \<^verbatim>\<open>candidate.set\<close> and the device as it found it.
  Conversely a run of the handler that calls \<^verbatim>\<open>candidate.set\<close> had a count at or above the
  threshold.
\<close>

theorem C3_establishment_threshold:
  "(\<forall>n ctr w1.
      count_ebgp_sessions_established connection w = (Inr n, ctr, w1)
      \<and> n < MIN_NUM_ACTIVE_BGP_SESSIONS \<longrightarrow>
        establishedHandler connection subj w =
          (Inr (), PrintLog (''received a BGP session establishment event for BGP Peer :'' @ nl
                     @ tab @ subj @ '','' @ nl) # ctr, w)
        \<and> filter is_candidate_set (fst (snd (establishedHandler connection subj w))) = [])
   \<and> ((\<exists>a \<in> set (fst (snd (establishedHandler connection subj w))). is_candidate_set a) \<longrightarrow>
        (\<exists>n. fst (count_ebgp_sessions_established connection w) = Inr n
             \<and> MIN_NUM_ACTIVE_BGP_SESSIONS \<le> n))"
proof -
  have below: "establishedHandler connection subj w =
          (Inr (), PrintLog (''received a BGP session establishment event for BGP Peer :'' @ nl
                     @ tab @ subj @ '','' @ nl) # ctr, w)
        \<and> filter is_candidate_set (fst (snd (establishedHandler connection subj w))) = []"
    if c: "count_ebgp_sessions_established connection w = (Inr n, ctr, w1)"
      and lt: "n < MIN_NUM_ACTIVE_BGP_SESSIONS" for n ctr w1
  proof -
    note fr = count_frame[OF c]
    have run: "establishedHandler connection subj w =
          (Inr (), PrintLog (''received a BGP session establishment event for BGP Peer :'' @ nl
                     @ tab @ subj @ '','' @ nl) # ctr, w)"
      using lt fr(1)
      by (simp add: establishedHandler_def print_log_def io_bind_emit io_return_def
            io_bind_Inr[where m="count_ebgp_sessions_established connection", OF c])
    with fr(2) show ?thesis by simp
  qed
  have only: "\<exists>n. fst (count_ebgp_sessions_established connection w) = Inr n
             \<and> MIN_NUM_ACTIVE_BGP_SESSIONS \<le> n"
    if ex: "\<exists>a \<in> set (fst (snd (establishedHandler connection subj w))). is_candidate_set a"
  proof -
    obtain r ctr w1 where c: "count_ebgp_sessions_established connection w = (r, ctr, w1)"
      by (cases "count_ebgp_sessions_established connection w") auto
    note fr = count_frame[OF c]
    show ?thesis
    proof (cases r)
      case (Inl e)
      with c have "fst (snd (establishedHandler connection subj w)) =
          PrintLog (''received a BGP session establishment event for BGP Peer :'' @ nl
                     @ tab @ subj @ '','' @ nl) # ctr"
        by (simp add: establishedHandler_def print_log_def io_bind_emit
              io_bind_Inl[where m="count_ebgp_sessions_established connection"])
      with ex fr(2) show ?thesis by (auto simp: filter_empty_conv)
    next
      case (Inr n)
      show ?thesis
      proof (cases "n < MIN_NUM_ACTIVE_BGP_SESSIONS")
        case True
        from below[OF c[unfolded Inr] True] ex show ?thesis by (auto simp: filter_empty_conv)
      next
        case False
        with c Inr show ?thesis by simp
      qed
    qed
  qed
  from below only show ?thesis by blast
qed

text \<open>
  Count 0 on the lab router: nothing is set. Count 1: \<^verbatim>\<open>tester2\<close>, which is down, is enabled.
\<close>

theorem C3_establishment_threshold_witness:
  "count_ebgp_sessions_established (lab_router [] [''10.1.5.5'']) lab_interfaces =
     (Inr 0, [RunningGet bgp_state_path nb_filter, RunningGet bgp_conf_path ebgp_group_filter],
      lab_interfaces)
   \<and> (0::int) < MIN_NUM_ACTIVE_BGP_SESSIONS
   \<and> filter is_candidate_set
        (fst (snd (establishedHandler (lab_router [] [''10.1.5.5'']) ''Peer 1: 10.1.5.5''
                     lab_interfaces))) = []
   \<and> (\<exists>a \<in> set (fst (snd (establishedHandler (lab_router [''10.1.5.5''] [''10.1.5.5''])
                              ''Peer 1: 10.1.5.5'' lab_interfaces))). is_candidate_set a)
   \<and> fst (count_ebgp_sessions_established (lab_router [''10.1.5.5''] [''10.1.5.5''])
            lab_interfaces) = Inr 1
   \<and> MIN_NUM_ACTIVE_BGP_SESSIONS \<le> 1"
proof -
  let ?L0 = "lab_router [] [''10.1.5.5'']"
  let ?L1 = "lab_router [''10.1.5.5''] [''10.1.5.5'']"
  have c0: "count_ebgp_sessions_established ?L0 lab_interfaces =
     (Inr 0, [RunningGet bgp_state_path nb_filter, RunningGet bgp_conf_path ebgp_group_filter],
      lab_interfaces)"
    by code_simp
  have lt: "(0::int) < MIN_NUM_ACTIVE_BGP_SESSIONS"
    by (simp add: MIN_NUM_ACTIVE_BGP_SESSIONS_def)
  have ex: "\<exists>a \<in> set (fst (snd (establishedHandler ?L1 ''Peer 1: 10.1.5.5'' lab_interfaces))).
              is_candidate_set a"
    by code_simp
  have c1: "fst (count_ebgp_sessions_established ?L1 lab_interfaces) = Inr 1"
    by code_simp
  note thm0 = C3_establishment_threshold[of ?L0 lab_interfaces "''Peer 1: 10.1.5.5''"]
  note thm1 = C3_establishment_threshold[of ?L1 lab_interfaces "''Peer 1: 10.1.5.5''"]
  from thm0 c0 lt have q0: "filter is_candidate_set
        (fst (snd (establishedHandler ?L0 ''Peer 1: 10.1.5.5'' lab_interfaces))) = []"
    by blast
  from thm1 ex c1 have q1: "MIN_NUM_ACTIVE_BGP_SESSIONS \<le> 1" by auto
  from c0 lt q0 ex c1 q1 show ?thesis by blast
qed

section \<open>C5 and C10: the event router\<close>

lemma main_discard:
  "discard_guard trigger_event = Inr True \<Longrightarrow>
   main connection trigger_event w = (Inr (), [Connect, GetEvent, Disconnect], w)"
  by (simp add: main_def io_bind_def io_emit_def)

lemma main_raise:
  "discard_guard trigger_event = Inl e \<Longrightarrow>
   main connection trigger_event w = (Inl e, [Connect, GetEvent], w)"
  by (simp add: main_def io_bind_def io_emit_def io_raise_def)

lemma main_dispatch:
  "discard_guard (Some ev) = Inr False \<Longrightarrow>
   main connection (Some ev) w =
     dispatch_run (if eventid ev = 2039 then backwardsHandler connection (subject ev)
                   else if eventid ev = 2038 then establishedHandler connection (subject ev)
                   else io_return ()) w"
  by (simp add: main_def dispatch_run_def io_bind_def io_emit_def
        split: prod.splits sum.splits)

text \<open>
  The routing of \<^verbatim>\<open>main\<close>. With no event, or an event whose subject begins with a digit,
  \<^verbatim>\<open>main\<close> connects, fetches the event and disconnects: no handler runs. For an event whose
  subject is not empty and does not begin with a digit, id 2039 runs exactly
  \<^verbatim>\<open>backwardsHandler\<close>, id 2038 runs exactly \<^verbatim>\<open>establishedHandler\<close>, and any other id runs no
  handler.
\<close>

lemma main_routing:
  "main connection None w = (Inr (), [Connect, GetEvent, Disconnect], w)
   \<and> (\<forall>ev c cs. subject ev = c # cs \<and> isdigit c \<longrightarrow>
         main connection (Some ev) w = (Inr (), [Connect, GetEvent, Disconnect], w))
   \<and> (\<forall>ev c cs. subject ev = c # cs \<and> \<not> isdigit c \<longrightarrow>
         (eventid ev = 2039 \<longrightarrow>
            main connection (Some ev) w =
              dispatch_run (backwardsHandler connection (subject ev)) w)
       \<and> (eventid ev = 2038 \<longrightarrow>
            main connection (Some ev) w =
              dispatch_run (establishedHandler connection (subject ev)) w)
       \<and> (eventid ev \<noteq> 2039 \<and> eventid ev \<noteq> 2038 \<longrightarrow>
            main connection (Some ev) w = (Inr (), [Connect, GetEvent, Disconnect], w)))"
proof -
  have none: "main connection None w = (Inr (), [Connect, GetEvent, Disconnect], w)"
    by (rule main_discard) (simp add: discard_guard_def)
  have digit: "main connection (Some ev) w = (Inr (), [Connect, GetEvent, Disconnect], w)"
    if "subject ev = c # cs \<and> isdigit c" for ev :: event and c cs
    by (rule main_discard) (use that in \<open>simp add: discard_guard_def\<close>)
  have g: "discard_guard (Some ev) = Inr False"
    if "subject ev = c # cs \<and> \<not> isdigit c" for ev :: event and c cs
    using that by (simp add: discard_guard_def)
  have degraded: "main connection (Some ev) w =
        dispatch_run (backwardsHandler connection (subject ev)) w"
    if "subject ev = c # cs \<and> \<not> isdigit c" and "eventid ev = 2039" for ev :: event and c cs
    using that(2) by (simp add: main_dispatch[OF g[OF that(1)]])
  have established: "main connection (Some ev) w =
        dispatch_run (establishedHandler connection (subject ev)) w"
    if "subject ev = c # cs \<and> \<not> isdigit c" and "eventid ev = 2038" for ev :: event and c cs
    using that(2) by (simp add: main_dispatch[OF g[OF that(1)]])
  have other: "main connection (Some ev) w = (Inr (), [Connect, GetEvent, Disconnect], w)"
    if "subject ev = c # cs \<and> \<not> isdigit c" and "eventid ev \<noteq> 2039 \<and> eventid ev \<noteq> 2038"
    for ev :: event and c cs
    using that(2) by (simp add: main_dispatch[OF g[OF that(1)]] dispatch_run_def io_return_def)
  from none digit degraded established other show ?thesis by blast
qed

text \<open>
  The subject \<^verbatim>\<open>Peer 1: 10.1.5.5\<close> with id 2039 is dispatched, with id 2040 it is ignored, and
  the subject \<^verbatim>\<open>10\<close> is discarded.
\<close>

lemma main_routing_lab:
  "subject (peer_event 2039) = CHR ''P'' # ''eer 1: 10.1.5.5'' \<and> \<not> isdigit CHR ''P''
   \<and> eventid (peer_event 2039) = 2039
   \<and> main (lab_router [] [''10.1.5.5'']) (Some (peer_event 2039)) lab_interfaces =
       dispatch_run (backwardsHandler (lab_router [] [''10.1.5.5'']) (subject (peer_event 2039)))
         lab_interfaces
   \<and> subject \<lparr>eventid = 2039, subject = ''10''\<rparr> = CHR ''1'' # ''0'' \<and> isdigit CHR ''1''
   \<and> main (lab_router [] [''10.1.5.5'']) (Some \<lparr>eventid = 2039, subject = ''10''\<rparr>)
        lab_interfaces = (Inr (), [Connect, GetEvent, Disconnect], lab_interfaces)
   \<and> eventid (peer_event 2040) \<noteq> 2039 \<and> eventid (peer_event 2040) \<noteq> 2038
   \<and> main (lab_router [] [''10.1.5.5'']) (Some (peer_event 2040)) lab_interfaces =
       (Inr (), [Connect, GetEvent, Disconnect], lab_interfaces)"
proof -
  have s: "subject (peer_event n) = CHR ''P'' # ''eer 1: 10.1.5.5''" for n
    by (simp add: peer_event_def)
  have i: "eventid (peer_event n) = n" for n
    by (simp add: peer_event_def)
  have d: "\<not> isdigit CHR ''P''" "isdigit CHR ''1''"
    by (simp_all add: isdigit_def)
  have s10: "subject \<lparr>eventid = 2039, subject = ''10''\<rparr> = CHR ''1'' # ''0''" by simp
  note router = main_routing[of "lab_router [] [''10.1.5.5'']" lab_interfaces]
  from router s[of 2039] i[of 2039] d(1)
  have a: "main (lab_router [] [''10.1.5.5'']) (Some (peer_event 2039)) lab_interfaces =
       dispatch_run (backwardsHandler (lab_router [] [''10.1.5.5'']) (subject (peer_event 2039)))
         lab_interfaces"
    by blast
  from router s10 d(2)
  have b: "main (lab_router [] [''10.1.5.5'']) (Some \<lparr>eventid = 2039, subject = ''10''\<rparr>)
        lab_interfaces = (Inr (), [Connect, GetEvent, Disconnect], lab_interfaces)"
    by blast
  have ne: "eventid (peer_event 2040) \<noteq> 2039 \<and> eventid (peer_event 2040) \<noteq> 2038"
    by (simp add: i)
  from router s[of 2040] ne d(1)
  have c: "main (lab_router [] [''10.1.5.5'']) (Some (peer_event 2040)) lab_interfaces =
       (Inr (), [Connect, GetEvent, Disconnect], lab_interfaces)"
    by blast
  from s[of 2039] i[of 2039] d s10 a b ne c show ?thesis by simp
qed

text \<open>
  Claim C5. The claim has every invocation either discarded (no event, or a subject that
  begins with a digit) or routed by the event id. The code does not do so for an event with the
  empty subject and id 2039: the event is there, its subject does not begin with a digit, and
  yet the run is neither the dispatch of \<^verbatim>\<open>backwardsHandler\<close>, which would return here, nor the
  discard. The guard's \<^verbatim>\<open>subject[0]\<close> raises \<^verbatim>\<open>IndexError\<close> after \<^verbatim>\<open>connect\<close> and
  \<^verbatim>\<open>get_event\<close>, and \<^verbatim>\<open>disconnect\<close> is not reached.
\<close>

theorem C5_event_router_empty_subject:
  "main (lab_router [] [''10.1.5.5'']) (Some \<lparr>eventid = 2039, subject = ''''\<rparr>) lab_interfaces =
     (Inl IndexError, [Connect, GetEvent], lab_interfaces)
   \<and> fst (backwardsHandler (lab_router [] [''10.1.5.5'']) '''' lab_interfaces) = Inr ()
   \<and> main (lab_router [] [''10.1.5.5'']) (Some \<lparr>eventid = 2039, subject = ''''\<rparr>) lab_interfaces
       \<noteq> dispatch_run (backwardsHandler (lab_router [] [''10.1.5.5'']) '''') lab_interfaces
   \<and> main (lab_router [] [''10.1.5.5'']) (Some \<lparr>eventid = 2039, subject = ''''\<rparr>) lab_interfaces
       \<noteq> (Inr (), [Connect, GetEvent, Disconnect], lab_interfaces)"
proof -
  have m: "main (lab_router [] [''10.1.5.5'']) (Some \<lparr>eventid = 2039, subject = ''''\<rparr>)
            lab_interfaces = (Inl IndexError, [Connect, GetEvent], lab_interfaces)"
    by (rule main_raise) (simp add: discard_guard_def)
  have h: "fst (backwardsHandler (lab_router [] [''10.1.5.5'']) '''' lab_interfaces) = Inr ()"
    by code_simp
  then have "fst (dispatch_run (backwardsHandler (lab_router [] [''10.1.5.5'']) '''')
               lab_interfaces) = Inr ()"
    by (cases "backwardsHandler (lab_router [] [''10.1.5.5'']) '''' lab_interfaces")
       (auto simp: dispatch_run_def split: sum.splits)
  moreover have "fst (main (lab_router [] [''10.1.5.5''])
                      (Some \<lparr>eventid = 2039, subject = ''''\<rparr>) lab_interfaces) \<noteq> Inr ()"
    by (simp add: m)
  ultimately have "main (lab_router [] [''10.1.5.5''])
        (Some \<lparr>eventid = 2039, subject = ''''\<rparr>) lab_interfaces
       \<noteq> dispatch_run (backwardsHandler (lab_router [] [''10.1.5.5'']) '''') lab_interfaces"
    by metis
  with m h show ?thesis by simp
qed

text \<open>
  Claim C10. For an event with the empty subject the guard \<^verbatim>\<open>subject[0].isdigit()\<close> raises
  \<^verbatim>\<open>IndexError\<close>, and \<^verbatim>\<open>main\<close> ends with that exception after connecting and fetching the
  event, without the discard. For a subject with a first character the guard returns whether
  that character is a digit, and with no event it returns \<open>True\<close>: the guard raises exactly
  when an event with the empty subject is delivered.
\<close>

theorem C10_empty_subject:
  "discard_guard (Some (ev\<lparr>subject := ''''\<rparr>)) = Inl IndexError
   \<and> main connection (Some (ev\<lparr>subject := ''''\<rparr>)) w = (Inl IndexError, [Connect, GetEvent], w)
   \<and> discard_guard (Some (ev\<lparr>subject := c # cs\<rparr>)) = Inr (isdigit c)
   \<and> discard_guard None = Inr True
   \<and> ((\<exists>e. discard_guard trigger_event = Inl e) =
       (\<exists>ev'. trigger_event = Some ev' \<and> subject ev' = ''''))"
proof -
  have empty: "discard_guard (Some (ev\<lparr>subject := ''''\<rparr>)) = Inl IndexError"
    by (simp add: discard_guard_def)
  from main_raise[OF empty]
  have run: "main connection (Some (ev\<lparr>subject := ''''\<rparr>)) w = (Inl IndexError, [Connect, GetEvent], w)" .
  have char: "discard_guard (Some (ev\<lparr>subject := c # cs\<rparr>)) = Inr (isdigit c)"
    by (simp add: discard_guard_def)
  have none: "discard_guard None = Inr True"
    by (simp add: discard_guard_def)
  have only: "(\<exists>e. discard_guard trigger_event = Inl e) =
       (\<exists>ev'. trigger_event = Some ev' \<and> subject ev' = '''')"
  proof (cases trigger_event)
    case None
    then show ?thesis by (simp add: none)
  next
    case (Some ev')
    then show ?thesis by (cases "subject ev'") (simp_all add: discard_guard_def)
  qed
  from empty run char none only show ?thesis by blast
qed

text \<open>On the lab router, with the empty subject and with \<^verbatim>\<open>Peer 1: 10.1.5.5\<close>.\<close>

theorem C10_empty_subject_witness:
  "main (lab_router [] [''10.1.5.5'']) (Some \<lparr>eventid = 2039, subject = ''''\<rparr>) lab_interfaces =
     (Inl IndexError, [Connect, GetEvent], lab_interfaces)
   \<and> discard_guard (Some \<lparr>eventid = 2039, subject = ''Peer 1: 10.1.5.5''\<rparr>) = Inr False"
  using C10_empty_subject[of "\<lparr>eventid = 2039, subject = ''x''\<rparr>" "lab_router [] [''10.1.5.5'']"
      lab_interfaces "CHR ''P''" "''eer 1: 10.1.5.5''"]
  by (simp add: isdigit_def)

section \<open>C8: releasing the management session\<close>

lemma handler_action_not_session:
  "handler_action a \<Longrightarrow> a \<noteq> Connect \<and> a \<noteq> Disconnect"
  by (induction rule: handler_action.induct) simp_all

lemma trace_invD:
  "trace_inv P Q m \<Longrightarrow> a \<in> set (fst (snd (m w))) \<Longrightarrow> P a"
  unfolding trace_inv_def by (cases "m w") (fastforce dest!: spec[of _ w])

lemma dispatched_actions:
  "trace_inv handler_action (\<lambda>_. True)
     (if eventid ev = 2039 then backwardsHandler connection (subject ev)
      else if eventid ev = 2038 then establishedHandler connection (subject ev)
      else io_return ())"
  by (intro trace_inv_if backwardsHandler_actions establishedHandler_actions trace_inv_return TrueI)

text \<open>
  Claim C8, amended. Whenever \<^verbatim>\<open>main\<close> returns (early discard, an id that is ignored, or a
  handler that returns), its first action is \<^verbatim>\<open>connect\<close>, its last action is
  \<^verbatim>\<open>disconnect\<close>, and each occurs exactly once.
\<close>

theorem C8_session_released_on_return:
  assumes "fst (main connection trigger_event w) = Inr u"
  shows "hd (fst (snd (main connection trigger_event w))) = Connect
     \<and> last (fst (snd (main connection trigger_event w))) = Disconnect
     \<and> count_list (fst (snd (main connection trigger_event w))) Connect = 1
     \<and> count_list (fst (snd (main connection trigger_event w))) Disconnect = 1"
proof (cases "discard_guard trigger_event")
  case (Inl e)
  from main_raise[OF this, of connection w] assms show ?thesis by simp
next
  case (Inr discard)
  show ?thesis
  proof (cases discard)
    case True
    with Inr have "discard_guard trigger_event = Inr True" by simp
    from main_discard[OF this, of connection w] show ?thesis by simp
  next
    case False
    with Inr obtain ev where ev: "trigger_event = Some ev"
      and g: "discard_guard (Some ev) = Inr False"
      by (cases trigger_event) (auto simp: discard_guard_def)
    let ?h = "if eventid ev = 2039 then backwardsHandler connection (subject ev)
              else if eventid ev = 2038 then establishedHandler connection (subject ev)
              else io_return ()"
    obtain r htr w' where h: "?h w = (r, htr, w')" by (cases "?h w") auto
    have run: "main connection trigger_event w = dispatch_run ?h w"
      unfolding ev by (rule main_dispatch[OF g])
    with assms h have tr: "fst (snd (main connection trigger_event w))
                             = Connect # GetEvent # htr @ [Disconnect]"
      by (auto simp: dispatch_run_def split: sum.splits)
    have "\<forall>a \<in> set htr. a \<noteq> Connect \<and> a \<noteq> Disconnect"
    proof
      fix a assume "a \<in> set htr"
      with h have "a \<in> set (fst (snd (?h w)))" by simp
      from trace_invD[OF dispatched_actions this] show "a \<noteq> Connect \<and> a \<noteq> Disconnect"
        by (rule handler_action_not_session)
    qed
    then have "count_list htr Connect = 0" and "count_list htr Disconnect = 0"
      by (auto simp: count_list_0_iff)
    then show ?thesis by (simp add: tr)
  qed
qed

text \<open>A degradation event on the lab router: the run returns and ends with the disconnect.\<close>

theorem C8_session_released_on_return_witness:
  "fst (main (lab_router [] [''10.1.5.5'']) (Some (peer_event 2039)) lab_interfaces) = Inr ()
   \<and> last (fst (snd (main (lab_router [] [''10.1.5.5'']) (Some (peer_event 2039))
                       lab_interfaces))) = Disconnect
   \<and> count_list (fst (snd (main (lab_router [] [''10.1.5.5'']) (Some (peer_event 2039))
                       lab_interfaces))) Disconnect = 1"
proof -
  have r: "fst (main (lab_router [] [''10.1.5.5'']) (Some (peer_event 2039)) lab_interfaces)
             = Inr ()"
    by code_simp
  from C8_session_released_on_return[OF r] r show ?thesis by blast
qed

text \<open>
  The claim as stated includes the paths on which a query raises. There is no
  \<^verbatim>\<open>try\<close>/\<^verbatim>\<open>finally\<close> in \<^verbatim>\<open>main\<close>: when the first query of the counter raises, the exception
  leaves \<^verbatim>\<open>main\<close> and \<^verbatim>\<open>disconnect\<close> is never called.
\<close>

theorem C8_session_not_released_counterexample:
  "fst (main no_device (Some (peer_event 2039)) lab_interfaces) = Inl (OtherError ''LookupError'')
   \<and> count_list (fst (snd (main no_device (Some (peer_event 2039)) lab_interfaces))) Connect = 1
   \<and> count_list (fst (snd (main no_device (Some (peer_event 2039)) lab_interfaces))) Disconnect = 0"
  by code_simp

section \<open>C6: errors of the State Mutator\<close>

lemma io_emit_run: "io_emit a w = (Inr (), [a], w)"
  by (simp add: io_emit_def)

lemma io_return_run: "io_return x w = (Inr x, [], w)"
  by (simp add: io_return_def)

lemma io_try_candidate_set:
  "io_try (io_candidate_set connection path payload) h w =
     (case candidate_set connection w path payload of
        (None, w') \<Rightarrow> (Inr (), [CandidateSet path payload], w')
      | (Some e, w') \<Rightarrow>
          (case h e of
             None \<Rightarrow> (Inl e, [CandidateSet path payload], w')
           | Some k \<Rightarrow> (fst (k w'), CandidateSet path payload # fst (snd (k w')),
                        snd (snd (k w')))))"
  by (simp add: io_try_def io_candidate_set_def split: prod.splits option.splits)

lemma same_outcome_refl: "same_outcome m m"
  by (simp add: same_outcome_def)

lemma same_outcome_bind:
  assumes "same_outcome m m'" and "\<And>x. same_outcome (f x) (f' x)"
  shows "same_outcome (io_bind m f) (io_bind m' f')"
  unfolding same_outcome_def
proof (intro allI)
  fix w
  obtain r tr w1 where m: "m w = (r, tr, w1)" by (cases "m w") auto
  obtain r' tr' w1' where m': "m' w = (r', tr', w1')" by (cases "m' w") auto
  from assms(1) m m' have eq: "r' = r" "w1' = w1"
    by (auto simp: same_outcome_def dest: spec[of _ w])
  show "fst (io_bind m f w) = fst (io_bind m' f' w)
      \<and> snd (snd (io_bind m f w)) = snd (snd (io_bind m' f' w))"
  proof (cases r)
    case (Inl e)
    with m m' eq show ?thesis by (simp add: io_bind_def)
  next
    case (Inr x)
    from assms(2)[of x] have "fst (f x w1) = fst (f' x w1)"
      and "snd (snd (f x w1)) = snd (snd (f' x w1))"
      by (simp_all add: same_outcome_def)
    with m m' eq Inr show ?thesis
      by (cases "f x w1"; cases "f' x w1") (simp add: io_bind_def)
  qed
qed

lemma same_outcome_if:
  "(b \<Longrightarrow> same_outcome m1 m1') \<Longrightarrow> (\<not> b \<Longrightarrow> same_outcome m2 m2') \<Longrightarrow>
   same_outcome (if b then m1 else m2) (if b then m1' else m2')"
  by simp

lemma accepting_reads:
  "find_interfaces (accepting connection) f = find_interfaces connection f"
  "count_ebgp_sessions_established (accepting connection)
     = count_ebgp_sessions_established connection"
  "print_table (accepting connection) rows info header = print_table connection rows info header"
  "io_sleep (accepting connection) n = io_sleep connection n"
  by (simp_all add: accepting_def find_interfaces_def count_ebgp_sessions_established_def
        io_running_get_def print_table_def io_sleep_def)

lemma try_set_accepting:
  assumes "\<forall>w path payload error w'.
             candidate_set connection w path payload = (Some error, w') \<longrightarrow> logged_error error"
  shows "same_outcome
           (io_try (io_candidate_set connection path payload)
              (\<lambda>error. case error of
                 SrosMgmtError args \<Rightarrow>
                   Some (case format_s_tuple pre post args of
                           Inl e \<Rightarrow> io_raise e
                         | Inr s \<Rightarrow> py_print s)
               | TypeError msg \<Rightarrow> Some (io_bind (py_print msg) (\<lambda>_. io_emit (PrintVal v)))
               | _ \<Rightarrow> None))
           (io_try (io_candidate_set (accepting connection) path payload)
              (\<lambda>error. case error of
                 SrosMgmtError args \<Rightarrow>
                   Some (case format_s_tuple pre post args of
                           Inl e \<Rightarrow> io_raise e
                         | Inr s \<Rightarrow> py_print s)
               | TypeError msg \<Rightarrow> Some (io_bind (py_print msg) (\<lambda>_. io_emit (PrintVal v)))
               | _ \<Rightarrow> None))"
  unfolding same_outcome_def
proof (intro allI)
  fix w
  obtain eo w' where cs: "candidate_set connection w path payload = (eo, w')"
    by (cases "candidate_set connection w path payload") auto
  have acc: "candidate_set (accepting connection) w path payload = (None, w')"
    using cs by (simp add: accepting_def)
  let ?h = "\<lambda>error. case error of
                 SrosMgmtError args \<Rightarrow>
                   Some (case format_s_tuple pre post args of
                           Inl e \<Rightarrow> io_raise e
                         | Inr s \<Rightarrow> py_print s)
               | TypeError msg \<Rightarrow> Some (io_bind (py_print msg) (\<lambda>_. io_emit (PrintVal v)))
               | _ \<Rightarrow> None"
  show "fst (io_try (io_candidate_set connection path payload) ?h w)
          = fst (io_try (io_candidate_set (accepting connection) path payload) ?h w)
      \<and> snd (snd (io_try (io_candidate_set connection path payload) ?h w))
          = snd (snd (io_try (io_candidate_set (accepting connection) path payload) ?h w))"
  proof (cases eo)
    case None
    with cs acc show ?thesis by (simp add: io_try_candidate_set)
  next
    case (Some error)
    with cs assms have "logged_error error" by blast
    then consider detail where "error = SrosMgmtError [detail]" | msg where "error = TypeError msg"
      by (cases error rule: logged_error.cases) auto
    then show ?thesis
    proof cases
      case 1
      with cs acc Some show ?thesis
        by (simp add: io_try_candidate_set format_s_tuple_def py_print_def io_emit_run)
    next
      case 2
      with cs acc Some show ?thesis
        by (simp add: io_try_candidate_set py_print_def io_bind_emit io_emit_run)
    qed
  qed
qed

lemma modify_accepting:
  assumes "\<forall>w path payload error w'.
             candidate_set connection w path payload = (Some error, w') \<longrightarrow> logged_error error"
  shows "same_outcome (modify_downstream_interfaces connection active change)
           (modify_downstream_interfaces (accepting connection) active change)"
  unfolding modify_downstream_interfaces_def Let_def
  by (intro same_outcome_if same_outcome_bind same_outcome_refl try_set_accepting[OF assms])

lemma backwardsHandler_accepting:
  assumes "\<forall>w path payload error w'.
             candidate_set connection w path payload = (Some error, w') \<longrightarrow> logged_error error"
  shows "same_outcome (backwardsHandler connection subj)
           (backwardsHandler (accepting connection) subj)"
  unfolding backwardsHandler_def accepting_reads
  by (intro same_outcome_if same_outcome_bind same_outcome_refl modify_accepting[OF assms])

lemma establishedHandler_accepting:
  assumes "\<forall>w path payload error w'.
             candidate_set connection w path payload = (Some error, w') \<longrightarrow> logged_error error"
  shows "same_outcome (establishedHandler connection subj)
           (establishedHandler (accepting connection) subj)"
  unfolding establishedHandler_def accepting_reads
  by (intro same_outcome_if same_outcome_bind same_outcome_refl modify_accepting[OF assms])

lemma main_accepting:
  assumes "\<forall>w path payload error w'.
             candidate_set connection w path payload = (Some error, w') \<longrightarrow> logged_error error"
  shows "same_outcome (main connection trigger_event) (main (accepting connection) trigger_event)"
proof (cases "discard_guard trigger_event")
  case (Inl e)
  then show ?thesis by (simp add: same_outcome_def main_raise)
next
  case (Inr discard)
  then show ?thesis
    unfolding main_def
    by (cases discard)
       (auto intro!: same_outcome_if same_outcome_bind same_outcome_refl
          backwardsHandler_accepting[OF assms] establishedHandler_accepting[OF assms])
qed

lemma main_returns_last:
  assumes "fst (main connection trigger_event w) = Inr u"
  shows "last (fst (snd (main connection trigger_event w))) = Disconnect"
proof (cases "discard_guard trigger_event")
  case (Inl e)
  from main_raise[OF this, of connection w] assms show ?thesis by simp
next
  case (Inr discard)
  show ?thesis
  proof (cases discard)
    case True
    with Inr have "discard_guard trigger_event = Inr True" by simp
    from main_discard[OF this, of connection w] show ?thesis by simp
  next
    case False
    with Inr obtain ev where ev: "trigger_event = Some ev"
      and g: "discard_guard (Some ev) = Inr False"
      by (cases trigger_event) (auto simp: discard_guard_def)
    let ?h = "if eventid ev = 2039 then backwardsHandler connection (subject ev)
              else if eventid ev = 2038 then establishedHandler connection (subject ev)
              else io_return ()"
    obtain r htr w' where h: "?h w = (r, htr, w')" by (cases "?h w") auto
    have "main connection trigger_event w = dispatch_run ?h w"
      unfolding ev by (rule main_dispatch[OF g])
    with assms h show ?thesis
      by (auto simp: dispatch_run_def split: sum.splits)
  qed
qed

text \<open>
  Claim C6. Let \<^verbatim>\<open>modify_downstream_interfaces\<close> be called with \<^verbatim>\<open>enable\<close> or \<^verbatim>\<open>disable\<close>
  and a non-empty selection, and let \<^verbatim>\<open>candidate.set\<close> raise. If the error is an
  \<^verbatim>\<open>SrosMgmtError\<close> (with its message as the one element of \<^verbatim>\<open>args\<close>, which is what the
  \<^verbatim>\<open>%\<close> of the \<^verbatim>\<open>except\<close> clause formats), the function prints that detail; if it is a
  \<^verbatim>\<open>TypeError\<close>, the function prints the error and then the payload. In both cases
  \<^verbatim>\<open>candidate.set\<close> was called once, with the whole batch, nothing is called after the
  logging, and the function returns \<open>True\<close> to its caller. The invocation runs to completion:
  when these are the errors \<^verbatim>\<open>candidate.set\<close> raises, \<^verbatim>\<open>main\<close> ends with the result and the
  device state it ends with when \<^verbatim>\<open>candidate.set\<close> raises nothing, and where that run
  returns, this one returns and its last action is \<^verbatim>\<open>disconnect\<close>.
\<close>

theorem C6_mutation_errors_swallowed:
  assumes "change = ''enable'' \<or> change = ''disable''"
    and "DAList.impl_of active_interfaces \<noteq> []"
    and "cfg_payload = Dict [(''nokia-conf:interface'',
           Dict (cfg_payload_loop (map fst (DAList.impl_of active_interfaces)) change []))]"
    and "candidate_set connection w cfg_path cfg_payload = (Some error, w')"
  shows "(error = SrosMgmtError [detail] \<longrightarrow>
            modify_downstream_interfaces connection active_interfaces change w =
              (Inr True,
               [Print (''Interfaces to be brought ''
                   @ (if change = ''enable'' then ''up'' else ''down'') @ '':'' @ nl @ tab
                   @ join (nl @ tab) (map fst (DAList.impl_of active_interfaces)) @ nl),
                CandidateSet cfg_path cfg_payload,
                Print (''Disabling the active interfaces failed due to an error:'' @ nl @ tab
                         @ detail)],
               w'))
     \<and> (error = TypeError msg \<longrightarrow>
            modify_downstream_interfaces connection active_interfaces change w =
              (Inr True,
               [Print (''Interfaces to be brought ''
                   @ (if change = ''enable'' then ''up'' else ''down'') @ '':'' @ nl @ tab
                   @ join (nl @ tab) (map fst (DAList.impl_of active_interfaces)) @ nl),
                CandidateSet cfg_path cfg_payload,
                Print msg,
                PrintVal cfg_payload],
               w'))
     \<and> ((\<forall>w path payload error w'.
            candidate_set connection w path payload = (Some error, w') \<longrightarrow> logged_error error) \<longrightarrow>
          fst (main connection trigger_event w0) = fst (main (accepting connection) trigger_event w0)
        \<and> snd (snd (main connection trigger_event w0))
            = snd (snd (main (accepting connection) trigger_event w0))
        \<and> (fst (main (accepting connection) trigger_event w0) = Inr () \<longrightarrow>
             fst (main connection trigger_event w0) = Inr ()
           \<and> last (fst (snd (main connection trigger_event w0))) = Disconnect))"
proof (intro conjI impI)
  have ne: "cfg_payload_loop (map fst (DAList.impl_of active_interfaces)) change [] \<noteq> []"
    using assms(2) by (simp add: cfg_payload_loop_nonempty)
  note cs = assms(4)[unfolded assms(3)]
  { assume "error = SrosMgmtError [detail]"
    with assms(1) ne cs
    show "modify_downstream_interfaces connection active_interfaces change w =
              (Inr True,
               [Print (''Interfaces to be brought ''
                   @ (if change = ''enable'' then ''up'' else ''down'') @ '':'' @ nl @ tab
                   @ join (nl @ tab) (map fst (DAList.impl_of active_interfaces)) @ nl),
                CandidateSet cfg_path cfg_payload,
                Print (''Disabling the active interfaces failed due to an error:'' @ nl @ tab
                         @ detail)],
               w')"
      unfolding assms(3) modify_downstream_interfaces_def Let_def py_print_def
      by (auto simp: io_bind_emit io_try_candidate_set io_bind_def io_emit_def io_return_def
            format_s_tuple_def split: prod.splits) }
  { assume "error = TypeError msg"
    with assms(1) ne cs
    show "modify_downstream_interfaces connection active_interfaces change w =
              (Inr True,
               [Print (''Interfaces to be brought ''
                   @ (if change = ''enable'' then ''up'' else ''down'') @ '':'' @ nl @ tab
                   @ join (nl @ tab) (map fst (DAList.impl_of active_interfaces)) @ nl),
                CandidateSet cfg_path cfg_payload,
                Print msg,
                PrintVal cfg_payload],
               w')"
      unfolding assms(3) modify_downstream_interfaces_def Let_def py_print_def
      by (auto simp: io_bind_emit io_try_candidate_set io_bind_def io_emit_def io_return_def
            split: prod.splits) }
  assume logged: "\<forall>w path payload error w'.
            candidate_set connection w path payload = (Some error, w') \<longrightarrow> logged_error error"
  from main_accepting[OF logged, of trigger_event]
  show same: "fst (main connection trigger_event w0)
                = fst (main (accepting connection) trigger_event w0)"
    and "snd (snd (main connection trigger_event w0))
            = snd (snd (main (accepting connection) trigger_event w0))"
    by (simp_all add: same_outcome_def)
  assume "fst (main (accepting connection) trigger_event w0) = Inr ()"
  with same show ret: "fst (main connection trigger_event w0) = Inr ()" by simp
  from main_returns_last[OF ret]
  show "last (fst (snd (main connection trigger_event w0))) = Disconnect" .
qed

text \<open>
  A router that rejects the change with a one-argument \<^verbatim>\<open>SrosMgmtError\<close>: the error is
  logged, the function returns, and \<^verbatim>\<open>main\<close> returns and ends with the disconnect.
\<close>

theorem C6_mutation_errors_swallowed_witness:
  "candidate_set (rejecting_router (SrosMgmtError [''MINOR: MGMT_CORE #2004: Incorrect parameter'']))
      lab_interfaces cfg_path
      (Dict [(''nokia-conf:interface'',
         Dict [(''tester1'', Dict [(''interface-name'', Str ''tester1''),
                                   (''admin-state'', Str ''disable'')])])])
     = (Some (SrosMgmtError [''MINOR: MGMT_CORE #2004: Incorrect parameter'']), lab_interfaces)
   \<and> modify_downstream_interfaces
        (rejecting_router (SrosMgmtError [''MINOR: MGMT_CORE #2004: Incorrect parameter'']))
        (alist_of [(''tester1'', ''up'')]) ''disable'' lab_interfaces
     = (Inr True,
        [Print (''Interfaces to be brought down:'' @ nl @ tab @ ''tester1'' @ nl),
         CandidateSet cfg_path
           (Dict [(''nokia-conf:interface'',
              Dict [(''tester1'', Dict [(''interface-name'', Str ''tester1''),
                                        (''admin-state'', Str ''disable'')])])]),
         Print (''Disabling the active interfaces failed due to an error:'' @ nl @ tab
                  @ ''MINOR: MGMT_CORE #2004: Incorrect parameter'')],
        lab_interfaces)
   \<and> modify_downstream_interfaces (rejecting_router (TypeError ''unhashable type''))
        (alist_of [(''tester1'', ''up'')]) ''disable'' lab_interfaces
     = (Inr True,
        [Print (''Interfaces to be brought down:'' @ nl @ tab @ ''tester1'' @ nl),
         CandidateSet cfg_path
           (Dict [(''nokia-conf:interface'',
              Dict [(''tester1'', Dict [(''interface-name'', Str ''tester1''),
                                        (''admin-state'', Str ''disable'')])])]),
         Print ''unhashable type'',
         PrintVal
           (Dict [(''nokia-conf:interface'',
              Dict [(''tester1'', Dict [(''interface-name'', Str ''tester1''),
                                        (''admin-state'', Str ''disable'')])])])],
        lab_interfaces)
   \<and> logged_error (SrosMgmtError [''MINOR: MGMT_CORE #2004: Incorrect parameter''])
   \<and> fst (main (accepting
               (rejecting_router (SrosMgmtError [''MINOR: MGMT_CORE #2004: Incorrect parameter''])))
             (Some (peer_event 2039)) lab_interfaces) = Inr ()
   \<and> fst (main (rejecting_router (SrosMgmtError [''MINOR: MGMT_CORE #2004: Incorrect parameter'']))
             (Some (peer_event 2039)) lab_interfaces) = Inr ()
   \<and> last (fst (snd (main (rejecting_router
                              (SrosMgmtError [''MINOR: MGMT_CORE #2004: Incorrect parameter'']))
                       (Some (peer_event 2039)) lab_interfaces))) = Disconnect"
proof -
  let ?e = "SrosMgmtError [''MINOR: MGMT_CORE #2004: Incorrect parameter'']"
  let ?P = "Dict [(''nokia-conf:interface'',
         Dict [(''tester1'', Dict [(''interface-name'', Str ''tester1''),
                                   (''admin-state'', Str ''disable'')])])]"
  have ne: "DAList.impl_of (alist_of [(''tester1'', ''up'')]) \<noteq> []"
    by code_simp
  have keys: "map fst (DAList.impl_of (alist_of [(''tester1'', ''up'')])) = [''tester1'']"
    by code_simp
  have pl: "?P = Dict [(''nokia-conf:interface'',
           Dict (cfg_payload_loop (map fst (DAList.impl_of (alist_of [(''tester1'', ''up'')])))
                   ''disable'' []))]"
    by code_simp
  have cs: "candidate_set (rejecting_router err) lab_interfaces cfg_path ?P
              = (Some err, lab_interfaces)" for err
    by (simp add: rejecting_router_def)
  have logged: "\<forall>w path payload error w'.
      candidate_set (rejecting_router ?e) w path payload = (Some error, w') \<longrightarrow> logged_error error"
    by (simp add: rejecting_router_def)
  have le: "logged_error ?e" by simp
  have acc: "fst (main (accepting (rejecting_router ?e)) (Some (peer_event 2039)) lab_interfaces)
               = Inr ()"
    by code_simp
  note inst = C6_mutation_errors_swallowed[where change = "''disable''"
      and detail = "''MINOR: MGMT_CORE #2004: Incorrect parameter''"
      and trigger_event = "Some (peer_event 2039)" and ?w0.0 = lab_interfaces,
      OF _ ne pl cs[of ?e]]
  from inst
  have m1: "modify_downstream_interfaces (rejecting_router ?e)
        (alist_of [(''tester1'', ''up'')]) ''disable'' lab_interfaces
     = (Inr True,
        [Print (''Interfaces to be brought down:'' @ nl @ tab @ ''tester1'' @ nl),
         CandidateSet cfg_path ?P,
         Print (''Disabling the active interfaces failed due to an error:'' @ nl @ tab
                  @ ''MINOR: MGMT_CORE #2004: Incorrect parameter'')],
        lab_interfaces)"
    by (simp add: keys)
  from inst logged acc
  have completes: "fst (main (rejecting_router ?e) (Some (peer_event 2039)) lab_interfaces) = Inr ()"
    "last (fst (snd (main (rejecting_router ?e) (Some (peer_event 2039)) lab_interfaces)))
       = Disconnect"
    by simp_all
  from C6_mutation_errors_swallowed[where change = "''disable''"
      and msg = "''unhashable type''", OF _ ne pl cs[of "TypeError ''unhashable type''"]]
  have m2: "modify_downstream_interfaces (rejecting_router (TypeError ''unhashable type''))
        (alist_of [(''tester1'', ''up'')]) ''disable'' lab_interfaces
     = (Inr True,
        [Print (''Interfaces to be brought down:'' @ nl @ tab @ ''tester1'' @ nl),
         CandidateSet cfg_path ?P,
         Print ''unhashable type'',
         PrintVal ?P],
        lab_interfaces)"
    by (simp add: keys)
  from cs[of ?e] m1 m2 le acc completes show ?thesis
    by simp
qed

section \<open>C9: restricting twice\<close>

lemma backwardsHandler_idle:
  assumes "find_interfaces connection ''up'' w = (Inr d, ftr, w2)" and "DAList.impl_of d = []"
  shows "snd (snd (backwardsHandler connection subj w)) = w"
    and "filter is_candidate_set (fst (snd (backwardsHandler connection subj w))) = []"
    and "filter is_sleep (fst (snd (backwardsHandler connection subj w))) = []"
proof -
  obtain r ctr w1 where c: "count_ebgp_sessions_established connection w = (r, ctr, w1)"
    by (cases "count_ebgp_sessions_established connection w") auto
  note fr = count_frame[OF c]
  note ff = find_interfaces_frame[OF assms(1)]
  have "snd (snd (backwardsHandler connection subj w)) = w
      \<and> filter is_candidate_set (fst (snd (backwardsHandler connection subj w))) = []
      \<and> filter is_sleep (fst (snd (backwardsHandler connection subj w))) = []"
  proof (cases r)
    case (Inl e)
    with c fr show ?thesis
      by (simp add: backwardsHandler_def print_log_def io_bind_emit
            io_bind_Inl[where m="count_ebgp_sessions_established connection"])
  next
    case (Inr n)
    with c fr assms ff show ?thesis
      by (simp add: backwardsHandler_def print_log_def py_print_def io_bind_emit io_emit_run
            io_bind_Inr[where m="count_ebgp_sessions_established connection"]
            io_bind_Inr[where m="find_interfaces connection ''up''"])
  qed
  then show "snd (snd (backwardsHandler connection subj w)) = w"
    and "filter is_candidate_set (fst (snd (backwardsHandler connection subj w))) = []"
    and "filter is_sleep (fst (snd (backwardsHandler connection subj w))) = []"
    by simp_all
qed

text \<open>
  Claim C9. In a device state where the selection with filter \<^verbatim>\<open>up\<close> is empty (no interface
  tagged \<^verbatim>\<open>tester\<close> is operationally up), \<^verbatim>\<open>backwardsHandler\<close> calls \<^verbatim>\<open>candidate.set\<close> not
  once and leaves the device as it is; the selection with filter \<^verbatim>\<open>up\<close> afterwards is empty
  again, so a second \<^verbatim>\<open>backwardsHandler\<close> mutates nothing either. Applying
  \<^verbatim>\<open>modify_downstream_interfaces\<close> to the empty selection sends no payload.
\<close>

theorem C9_restrict_idempotent:
  assumes "find_interfaces connection ''up'' w = (Inr d, ftr, w2)" and "DAList.impl_of d = []"
  shows "filter is_candidate_set (fst (snd (backwardsHandler connection subj w))) = []
     \<and> snd (snd (backwardsHandler connection subj w)) = w
     \<and> fst (find_interfaces connection ''up'' (snd (snd (backwardsHandler connection subj w))))
         = Inr d
     \<and> filter is_candidate_set
         (fst (snd (backwardsHandler connection subj'
                      (snd (snd (backwardsHandler connection subj w)))))) = []
     \<and> filter is_candidate_set
         (fst (snd (modify_downstream_interfaces connection d ''disable'' w))) = []
     \<and> snd (snd (modify_downstream_interfaces connection d ''disable'' w)) = w"
proof -
  note idle = backwardsHandler_idle[OF assms]
  have again: "filter is_candidate_set
         (fst (snd (backwardsHandler connection subj'
                      (snd (snd (backwardsHandler connection subj w)))))) = []"
    unfolding idle(1)[of subj] by (rule idle(2))
  have m: "modify_downstream_interfaces connection d ''disable'' w =
             (Inr True, [Print (''Interfaces to be brought down:'' @ nl @ tab @ nl)], w)"
    using assms(2)
    by (simp add: modify_downstream_interfaces_def py_print_def io_bind_def io_emit_def
          io_return_def)
  from idle(1,2)[of subj] again assms(1) m show ?thesis by simp
qed

text \<open>The lab router with both \<^verbatim>\<open>tester\<close> interfaces down.\<close>

theorem C9_restrict_idempotent_witness:
  "find_interfaces (lab_router [] [''10.1.5.5'']) ''up''
      [(''tester1'', ''down''), (''system'', ''up''), (''tester2'', ''down'')]
     = (Inr (alist_of []), [RunningGet interface_state_path (Dict [(''oper-state'', Str ''up'')])],
        [(''tester1'', ''down''), (''system'', ''up''), (''tester2'', ''down'')])
   \<and> DAList.impl_of (alist_of [] :: (string, string) alist) = []
   \<and> filter is_candidate_set
        (fst (snd (backwardsHandler (lab_router [] [''10.1.5.5'']) ''Peer 1: 10.1.5.5''
           [(''tester1'', ''down''), (''system'', ''up''), (''tester2'', ''down'')]))) = []
   \<and> snd (snd (backwardsHandler (lab_router [] [''10.1.5.5'']) ''Peer 1: 10.1.5.5''
           [(''tester1'', ''down''), (''system'', ''up''), (''tester2'', ''down'')]))
       = [(''tester1'', ''down''), (''system'', ''up''), (''tester2'', ''down'')]"
proof -
  let ?W = "[(''tester1'', ''down''), (''system'', ''up''), (''tester2'', ''down'')]"
  have sel: "find_interfaces (lab_router [] [''10.1.5.5'']) ''up'' ?W
     = (Inr (alist_of []), [RunningGet interface_state_path (Dict [(''oper-state'', Str ''up'')])],
        ?W)"
    by code_simp
  have e: "DAList.impl_of (alist_of [] :: (string, string) alist) = []"
    by code_simp
  from C9_restrict_idempotent[OF sel e, of "''Peer 1: 10.1.5.5''"] sel e show ?thesis
    by simp
qed

section \<open>C7: the settle pauses\<close>

lemma bgp_paths_not_interface:
  "bgp_state_path \<noteq> interface_state_path" "bgp_conf_path \<noteq> interface_state_path"
  by (simp_all add: bgp_state_path_def bgp_conf_path_def interface_state_path_def)

lemma count_steps:
  "count_ebgp_sessions_established connection w = (r, tr, w') \<Longrightarrow> interface_steps tr = []"
  by (auto simp: count_run interface_steps_def bgp_paths_not_interface split: sum.splits)

lemma print_table_run:
  "print_table connection rows info header w = (r, tr, w') \<Longrightarrow>
   tr = [PrintTable (map fst (DAList.impl_of rows)) info header] \<and> w' = w"
  by (auto simp: print_table_def split: option.splits)

lemma modify_steps:
  assumes "modify_downstream_interfaces connection active change w = (r, tr, w')"
    and "DAList.impl_of active \<noteq> []" and "change = ''enable'' \<or> change = ''disable''"
  shows "interface_steps tr =
           [CandidateSet cfg_path
              (Dict [(''nokia-conf:interface'',
                 Dict (cfg_payload_loop (map fst (DAList.impl_of active)) change []))])]"
proof -
  have ne: "cfg_payload_loop (map fst (DAList.impl_of active)) change [] \<noteq> []"
    using assms(2) by (simp add: cfg_payload_loop_nonempty)
  show ?thesis
    using assms(1,3) ne
    unfolding modify_downstream_interfaces_def Let_def py_print_def
    by (auto simp: io_bind_emit io_try_candidate_set io_bind_def io_emit_run io_return_run
          io_raise_def format_s_tuple_def interface_steps_def
          split: prod.splits option.splits exn.splits list.splits sum.splits)
qed

lemma verify_steps:
  assumes "io_bind (find_interfaces connection f)
             (\<lambda>inactive_interfaces.
                if DAList.impl_of inactive_interfaces \<noteq> []
                then print_table connection inactive_interfaces info header
                else io_return ()) w = (r, tr, w')"
  shows "interface_steps tr = [RunningGet interface_state_path (Dict [(''oper-state'', Str f)])]"
  using assms
  by (elim io_bindE)
     (auto simp: interface_steps_def io_return_run dest!: find_interfaces_frame print_table_run
        split: if_splits)

lemma apply_steps:
  assumes "io_bind (print_table connection active info header) (\<lambda>_.
           io_bind (io_sleep connection 1) (\<lambda>_.
           io_bind (modify_downstream_interfaces connection active change) (\<lambda>_.
           io_bind (io_sleep connection 1) (\<lambda>_.
           io_bind (find_interfaces connection f)
             (\<lambda>inactive_interfaces.
                if DAList.impl_of inactive_interfaces \<noteq> []
                then print_table connection inactive_interfaces info' header'
                else io_return ()))))) w = (r, tr, w')"
    and "DAList.impl_of active \<noteq> []" and "change = ''enable'' \<or> change = ''disable''"
  shows "(interface_steps tr = [] \<and> filter is_candidate_set tr = [] \<and> r \<noteq> Inr ())
       \<or> (interface_steps tr =
            [Sleep 1,
             CandidateSet cfg_path
               (Dict [(''nokia-conf:interface'',
                  Dict (cfg_payload_loop (map fst (DAList.impl_of active)) change []))])]
          \<and> r \<noteq> Inr ())
       \<or> interface_steps tr =
            [Sleep 1,
             CandidateSet cfg_path
               (Dict [(''nokia-conf:interface'',
                  Dict (cfg_payload_loop (map fst (DAList.impl_of active)) change []))]),
             Sleep 1,
             RunningGet interface_state_path (Dict [(''oper-state'', Str f)])]"
  using assms(1)
proof (cases rule: io_bindE)
  case (raised e)
  then show ?thesis by (auto simp: interface_steps_def dest!: print_table_run)
next
  case (returned x tr1 w1 tr2)
  from print_table_run[OF returned(1)] have tr1: "interface_steps tr1 = []"
    by (simp add: interface_steps_def)
  from returned(2) have rest: "io_bind (modify_downstream_interfaces connection active change) (\<lambda>_.
           io_bind (io_sleep connection 1) (\<lambda>_.
           io_bind (find_interfaces connection f)
             (\<lambda>inactive_interfaces.
                if DAList.impl_of inactive_interfaces \<noteq> []
                then print_table connection inactive_interfaces info' header'
                else io_return ()))) (time_sleep connection w1 1) = (r, tl tr2, w')"
    and hd2: "tr2 = Sleep 1 # tl tr2"
    by (auto simp: io_bind_sleep prod_eq_iff)
  from rest show ?thesis
  proof (cases rule: io_bindE)
    case (raised e)
    from modify_steps[OF raised(1) assms(2,3)] raised(2) hd2 tr1 returned(3) show ?thesis
      by (simp add: interface_steps_def) (metis filter.simps(2) is_interface_step.simps(1))
  next
    case (returned y tr3 w3 tr4)
    from returned(2) have v: "io_bind (find_interfaces connection f)
             (\<lambda>inactive_interfaces.
                if DAList.impl_of inactive_interfaces \<noteq> []
                then print_table connection inactive_interfaces info' header'
                else io_return ()) (time_sleep connection w3 1) = (r, tl tr4, w')"
      and hd4: "tr4 = Sleep 1 # tl tr4"
      by (auto simp: io_bind_sleep prod_eq_iff)
    have "interface_steps tr = interface_steps tr1 @ interface_steps tr2"
      using \<open>tr = tr1 @ tr2\<close> by (simp add: interface_steps_def)
    also have "interface_steps tr2 = Sleep 1 # interface_steps (tl tr2)"
      by (subst hd2) (simp add: interface_steps_def)
    also have "interface_steps (tl tr2) = interface_steps tr3 @ interface_steps tr4"
      using returned(3) by (simp add: interface_steps_def)
    also have "interface_steps tr4 = Sleep 1 # interface_steps (tl tr4)"
      by (subst hd4) (simp add: interface_steps_def)
    finally show ?thesis
      by (simp add: tr1 modify_steps[OF returned(1) assms(2,3)] verify_steps[OF v])
  qed
qed

lemma steps_append: "interface_steps (xs @ ys) = interface_steps xs @ interface_steps ys"
  by (simp add: interface_steps_def)

lemma backwardsHandler_steps:
  assumes run: "backwardsHandler connection subj w = (r, tr, w')"
    and ex: "\<exists>a \<in> set tr. is_candidate_set a"
  shows "\<exists>payload.
           interface_steps tr =
             [RunningGet interface_state_path (Dict [(''oper-state'', Str ''up'')]),
              Sleep 1, CandidateSet cfg_path payload, Sleep 1,
              RunningGet interface_state_path (Dict [(''oper-state'', Str ''down'')])]
         \<or> (r \<noteq> Inr () \<and>
            interface_steps tr =
              [RunningGet interface_state_path (Dict [(''oper-state'', Str ''up'')]),
               Sleep 1, CandidateSet cfg_path payload])"
proof -
  let ?block = "\<lambda>active_interfaces.
                   io_bind (print_table connection active_interfaces ''Up''
                              ''(up -> down) [BEFORE]'') (\<lambda>_.
                   io_bind (io_sleep connection 1) (\<lambda>_.
                   io_bind (modify_downstream_interfaces connection active_interfaces
                              ''disable'') (\<lambda>_.
                   io_bind (io_sleep connection 1) (\<lambda>_.
                   io_bind (find_interfaces connection ''down'')
                     (\<lambda>inactive_interfaces.
                        if DAList.impl_of inactive_interfaces \<noteq> []
                        then print_table connection inactive_interfaces ''Down''
                               ''(up -> down) [AFTER]''
                        else io_return ())))))"
  let ?select = "io_bind (find_interfaces connection ''up'')
              (\<lambda>active_interfaces.
                 if DAList.impl_of active_interfaces \<noteq> [] then ?block active_interfaces
                 else py_print ''No changes required, interfaces already down.'')"
  let ?decide = "\<lambda>active_ebgp_sessions.
          if active_ebgp_sessions \<ge> MIN_NUM_ACTIVE_BGP_SESSIONS
          then print_log (found_message active_ebgp_sessions (''Situation is manageable.'' @ nl))
          else
            io_bind (print_log (found_message active_ebgp_sessions
                       (''Protect the downstream network!'' @ nl)))
              (\<lambda>_. ?select)"
  from run have counted: "io_bind (count_ebgp_sessions_established connection) ?decide w
                            = (r, tl tr, w')"
    and tr0: "interface_steps tr = interface_steps (tl tr)"
    and ex0: "\<exists>a \<in> set (tl tr). is_candidate_set a"
    using ex by (auto simp: backwardsHandler_def print_log_def io_bind_emit interface_steps_def)
  from counted show ?thesis
  proof (cases rule: io_bindE)
    case (raised e)
    from count_frame(2)[OF raised(1)] ex0 show ?thesis by (simp add: filter_empty_conv)
  next
    case (returned n ctr w1 tr2)
    note fr = count_frame[OF returned(1)]
    from ex0 fr(2) returned(3) have ex2: "\<exists>a \<in> set tr2. is_candidate_set a"
      by (auto simp: filter_empty_conv)
    have lt: "\<not> MIN_NUM_ACTIVE_BGP_SESSIONS \<le> n"
    proof
      assume "MIN_NUM_ACTIVE_BGP_SESSIONS \<le> n"
      with returned(2) have "tr2 = [PrintLog (found_message n (''Situation is manageable.'' @ nl))]"
        by (auto simp: print_log_def io_emit_run)
      with ex2 show False by simp
    qed
    with returned(2) have selected: "?select w1 = (r, tl tr2, w')"
      and tr2: "interface_steps tr2 = interface_steps (tl tr2)"
      and ex3: "\<exists>a \<in> set (tl tr2). is_candidate_set a"
      using ex2 by (auto simp: print_log_def io_bind_emit interface_steps_def)
    have steps: "interface_steps tr = interface_steps (tl tr2)"
      using tr0 returned(3) count_steps[OF returned(1)] tr2 by (simp add: steps_append)
    from selected show ?thesis
    proof (cases rule: io_bindE)
      case (raised e)
      from find_interfaces_frame(2)[OF raised(1)] ex3 show ?thesis by simp
    next
      case (returned d ftr w2 tr3)
      note ff = find_interfaces_frame[OF returned(1)]
      from ex3 ff(2) returned(3) have ex4: "\<exists>a \<in> set tr3. is_candidate_set a" by auto
      have ne: "DAList.impl_of d \<noteq> []"
      proof
        assume "DAList.impl_of d = []"
        with returned(2) have "tr3 = [Print ''No changes required, interfaces already down.'']"
          by (auto simp: py_print_def io_emit_run)
        with ex4 show False by simp
      qed
      with returned(2) have "?block d w2 = (r, tr3, w')" by simp
      from apply_steps[OF this ne] ex4
      have "(interface_steps tr3 =
            [Sleep 1,
             CandidateSet cfg_path
               (Dict [(''nokia-conf:interface'',
                  Dict (cfg_payload_loop (map fst (DAList.impl_of d)) ''disable'' []))])]
          \<and> r \<noteq> Inr ())
       \<or> interface_steps tr3 =
            [Sleep 1,
             CandidateSet cfg_path
               (Dict [(''nokia-conf:interface'',
                  Dict (cfg_payload_loop (map fst (DAList.impl_of d)) ''disable'' []))]),
             Sleep 1,
             RunningGet interface_state_path (Dict [(''oper-state'', Str ''down'')])]"
        by (auto simp: filter_empty_conv)
      moreover have "interface_steps tr =
          RunningGet interface_state_path (Dict [(''oper-state'', Str ''up'')])
            # interface_steps tr3"
        using steps returned(3) ff(2) by (simp add: interface_steps_def)
      ultimately show ?thesis by auto
    qed
  qed
qed

lemma establishedHandler_steps:
  assumes run: "establishedHandler connection subj w = (r, tr, w')"
    and ex: "\<exists>a \<in> set tr. is_candidate_set a"
  shows "\<exists>payload.
           interface_steps tr =
             [RunningGet interface_state_path (Dict [(''oper-state'', Str ''down'')]),
              Sleep 1, CandidateSet cfg_path payload, Sleep 1,
              RunningGet interface_state_path (Dict [(''oper-state'', Str ''up'')])]
         \<or> (r \<noteq> Inr () \<and>
            interface_steps tr =
              [RunningGet interface_state_path (Dict [(''oper-state'', Str ''down'')]),
               Sleep 1, CandidateSet cfg_path payload])"
proof -
  let ?block = "\<lambda>active_interfaces.
                   io_bind (print_table connection active_interfaces ''Down''
                              ''(down -> up) [BEFORE]'') (\<lambda>_.
                   io_bind (io_sleep connection 1) (\<lambda>_.
                   io_bind (modify_downstream_interfaces connection active_interfaces
                              ''enable'') (\<lambda>_.
                   io_bind (io_sleep connection 1) (\<lambda>_.
                   io_bind (find_interfaces connection ''up'')
                     (\<lambda>inactive_interfaces.
                        if DAList.impl_of inactive_interfaces \<noteq> []
                        then print_table connection inactive_interfaces ''Up''
                               ''(down -> up) [AFTER]''
                        else io_return ())))))"
  let ?select = "io_bind (find_interfaces connection ''down'')
              (\<lambda>active_interfaces.
                 if DAList.impl_of active_interfaces \<noteq> [] then ?block active_interfaces
                 else py_print ''No changes required, interfaces already up.'')"
  let ?decide = "\<lambda>active_ebgp_sessions.
          if active_ebgp_sessions \<ge> MIN_NUM_ACTIVE_BGP_SESSIONS then ?select
          else io_return ()"
  from run have counted: "io_bind (count_ebgp_sessions_established connection) ?decide w
                            = (r, tl tr, w')"
    and tr0: "interface_steps tr = interface_steps (tl tr)"
    and ex0: "\<exists>a \<in> set (tl tr). is_candidate_set a"
    using ex by (auto simp: establishedHandler_def print_log_def io_bind_emit interface_steps_def)
  from counted show ?thesis
  proof (cases rule: io_bindE)
    case (raised e)
    from count_frame(2)[OF raised(1)] ex0 show ?thesis by (simp add: filter_empty_conv)
  next
    case (returned n ctr w1 tr2)
    note fr = count_frame[OF returned(1)]
    from ex0 fr(2) returned(3) have ex2: "\<exists>a \<in> set tr2. is_candidate_set a"
      by (auto simp: filter_empty_conv)
    have ge: "MIN_NUM_ACTIVE_BGP_SESSIONS \<le> n"
    proof (rule ccontr)
      assume "\<not> MIN_NUM_ACTIVE_BGP_SESSIONS \<le> n"
      with returned(2) have "tr2 = []" by (auto simp: io_return_run)
      with ex2 show False by simp
    qed
    with returned(2) have selected: "?select w1 = (r, tr2, w')" by simp
    have steps: "interface_steps tr = interface_steps tr2"
      using tr0 returned(3) count_steps[OF returned(1)] by (simp add: steps_append)
    from selected show ?thesis
    proof (cases rule: io_bindE)
      case (raised e)
      from find_interfaces_frame(2)[OF raised(1)] ex2 show ?thesis by simp
    next
      case (returned d ftr w2 tr3)
      note ff = find_interfaces_frame[OF returned(1)]
      from ex2 ff(2) returned(3) have ex4: "\<exists>a \<in> set tr3. is_candidate_set a" by auto
      have ne: "DAList.impl_of d \<noteq> []"
      proof
        assume "DAList.impl_of d = []"
        with returned(2) have "tr3 = [Print ''No changes required, interfaces already up.'']"
          by (auto simp: py_print_def io_emit_run)
        with ex4 show False by simp
      qed
      with returned(2) have "?block d w2 = (r, tr3, w')" by simp
      from apply_steps[OF this ne] ex4
      have "(interface_steps tr3 =
            [Sleep 1,
             CandidateSet cfg_path
               (Dict [(''nokia-conf:interface'',
                  Dict (cfg_payload_loop (map fst (DAList.impl_of d)) ''enable'' []))])]
          \<and> r \<noteq> Inr ())
       \<or> interface_steps tr3 =
            [Sleep 1,
             CandidateSet cfg_path
               (Dict [(''nokia-conf:interface'',
                  Dict (cfg_payload_loop (map fst (DAList.impl_of d)) ''enable'' []))]),
             Sleep 1,
             RunningGet interface_state_path (Dict [(''oper-state'', Str ''up'')])]"
        by (auto simp: filter_empty_conv)
      moreover have "interface_steps tr =
          RunningGet interface_state_path (Dict [(''oper-state'', Str ''down'')])
            # interface_steps tr3"
        using steps returned(3) ff(2) by (simp add: interface_steps_def)
      ultimately show ?thesis by auto
    qed
  qed
qed

text \<open>
  Claim C7, amended. In every run of a handler that calls \<^verbatim>\<open>candidate.set\<close>, the interface
  queries, pauses and mutations are, in this order: the selection (filter \<^verbatim>\<open>up\<close> when
  restricting, \<^verbatim>\<open>down\<close> when restoring), \<^verbatim>\<open>time.sleep(1)\<close>, the one \<^verbatim>\<open>candidate.set\<close>,
  \<^verbatim>\<open>time.sleep(1)\<close>, and the verification query with the opposite filter. There are two
  pauses, one before and one after the State Mutator. Only a run that
  \<^verbatim>\<open>modify_downstream_interfaces\<close> leaves with an exception stops after the
  \<^verbatim>\<open>candidate.set\<close>, and such a run does not return.
\<close>

theorem C7_two_settle_pauses:
  "((\<exists>a \<in> set (fst (snd (backwardsHandler connection subj w))). is_candidate_set a) \<longrightarrow>
      (\<exists>payload.
         interface_steps (fst (snd (backwardsHandler connection subj w))) =
           [RunningGet interface_state_path (Dict [(''oper-state'', Str ''up'')]),
            Sleep 1, CandidateSet cfg_path payload, Sleep 1,
            RunningGet interface_state_path (Dict [(''oper-state'', Str ''down'')])]
       \<or> (fst (backwardsHandler connection subj w) \<noteq> Inr () \<and>
          interface_steps (fst (snd (backwardsHandler connection subj w))) =
            [RunningGet interface_state_path (Dict [(''oper-state'', Str ''up'')]),
             Sleep 1, CandidateSet cfg_path payload])))
   \<and> ((\<exists>a \<in> set (fst (snd (establishedHandler connection subj w))). is_candidate_set a) \<longrightarrow>
      (\<exists>payload.
         interface_steps (fst (snd (establishedHandler connection subj w))) =
           [RunningGet interface_state_path (Dict [(''oper-state'', Str ''down'')]),
            Sleep 1, CandidateSet cfg_path payload, Sleep 1,
            RunningGet interface_state_path (Dict [(''oper-state'', Str ''up'')])]
       \<or> (fst (establishedHandler connection subj w) \<noteq> Inr () \<and>
          interface_steps (fst (snd (establishedHandler connection subj w))) =
            [RunningGet interface_state_path (Dict [(''oper-state'', Str ''down'')]),
             Sleep 1, CandidateSet cfg_path payload])))"
proof (intro conjI impI)
  assume ex: "\<exists>a \<in> set (fst (snd (backwardsHandler connection subj w))). is_candidate_set a"
  have run: "backwardsHandler connection subj w =
      (fst (backwardsHandler connection subj w), fst (snd (backwardsHandler connection subj w)),
       snd (snd (backwardsHandler connection subj w)))"
    by simp
  from backwardsHandler_steps[OF run ex]
  show "\<exists>payload.
         interface_steps (fst (snd (backwardsHandler connection subj w))) =
           [RunningGet interface_state_path (Dict [(''oper-state'', Str ''up'')]),
            Sleep 1, CandidateSet cfg_path payload, Sleep 1,
            RunningGet interface_state_path (Dict [(''oper-state'', Str ''down'')])]
       \<or> (fst (backwardsHandler connection subj w) \<noteq> Inr () \<and>
          interface_steps (fst (snd (backwardsHandler connection subj w))) =
            [RunningGet interface_state_path (Dict [(''oper-state'', Str ''up'')]),
             Sleep 1, CandidateSet cfg_path payload])" .
next
  assume ex: "\<exists>a \<in> set (fst (snd (establishedHandler connection subj w))). is_candidate_set a"
  have run: "establishedHandler connection subj w =
      (fst (establishedHandler connection subj w), fst (snd (establishedHandler connection subj w)),
       snd (snd (establishedHandler connection subj w)))"
    by simp
  from establishedHandler_steps[OF run ex]
  show "\<exists>payload.
         interface_steps (fst (snd (establishedHandler connection subj w))) =
           [RunningGet interface_state_path (Dict [(''oper-state'', Str ''down'')]),
            Sleep 1, CandidateSet cfg_path payload, Sleep 1,
            RunningGet interface_state_path (Dict [(''oper-state'', Str ''up'')])]
       \<or> (fst (establishedHandler connection subj w) \<noteq> Inr () \<and>
          interface_steps (fst (snd (establishedHandler connection subj w))) =
            [RunningGet interface_state_path (Dict [(''oper-state'', Str ''down'')]),
             Sleep 1, CandidateSet cfg_path payload])" .
qed

text \<open>A restricting and a restoring run on the lab router.\<close>

theorem C7_two_settle_pauses_witness:
  "(\<exists>a \<in> set (fst (snd (backwardsHandler (lab_router [] [''10.1.5.5'']) ''Peer 1: 10.1.5.5''
                           lab_interfaces))). is_candidate_set a)
   \<and> fst (backwardsHandler (lab_router [] [''10.1.5.5'']) ''Peer 1: 10.1.5.5'' lab_interfaces)
       = Inr ()
   \<and> length (interface_steps (fst (snd (backwardsHandler (lab_router [] [''10.1.5.5''])
                ''Peer 1: 10.1.5.5'' lab_interfaces)))) = 5
   \<and> (\<exists>a \<in> set (fst (snd (establishedHandler (lab_router [''10.1.5.5''] [''10.1.5.5''])
                           ''Peer 1: 10.1.5.5'' lab_interfaces))). is_candidate_set a)
   \<and> fst (establishedHandler (lab_router [''10.1.5.5''] [''10.1.5.5'']) ''Peer 1: 10.1.5.5''
            lab_interfaces) = Inr ()
   \<and> length (interface_steps (fst (snd (establishedHandler (lab_router [''10.1.5.5'']
                [''10.1.5.5'']) ''Peer 1: 10.1.5.5'' lab_interfaces)))) = 5"
proof -
  let ?b = "backwardsHandler (lab_router [] [''10.1.5.5'']) ''Peer 1: 10.1.5.5'' lab_interfaces"
  let ?e = "establishedHandler (lab_router [''10.1.5.5''] [''10.1.5.5'']) ''Peer 1: 10.1.5.5''
              lab_interfaces"
  have exb: "\<exists>a \<in> set (fst (snd ?b)). is_candidate_set a" by code_simp
  have rb: "fst ?b = Inr ()" by code_simp
  have exe: "\<exists>a \<in> set (fst (snd ?e)). is_candidate_set a" by code_simp
  have re: "fst ?e = Inr ()" by code_simp
  from C7_two_settle_pauses[of "lab_router [] [''10.1.5.5'']" "''Peer 1: 10.1.5.5''"
      lab_interfaces] exb rb
  have lb: "length (interface_steps (fst (snd ?b))) = 5" by auto
  from C7_two_settle_pauses[of "lab_router [''10.1.5.5''] [''10.1.5.5'']" "''Peer 1: 10.1.5.5''"
      lab_interfaces] exe re
  have le: "length (interface_steps (fst (snd ?e))) = 5" by auto
  from exb rb lb exe re le show ?thesis by blast
qed

text \<open>
  The claim as stated has the pause exactly once, after the State Mutator. The restricting run
  on the lab router pauses twice, the first time before \<^verbatim>\<open>candidate.set\<close>.
\<close>

theorem C7_single_pause_counterexample:
  "fst (backwardsHandler (lab_router [] [''10.1.5.5'']) ''Peer 1: 10.1.5.5'' lab_interfaces)
     = Inr ()
   \<and> filter is_sleep (fst (snd (backwardsHandler (lab_router [] [''10.1.5.5''])
                                  ''Peer 1: 10.1.5.5'' lab_interfaces))) = [Sleep 1, Sleep 1]
   \<and> interface_steps (fst (snd (backwardsHandler (lab_router [] [''10.1.5.5''])
                                  ''Peer 1: 10.1.5.5'' lab_interfaces))) =
       [RunningGet interface_state_path (Dict [(''oper-state'', Str ''up'')]),
        Sleep 1,
        CandidateSet cfg_path
          (Dict [(''nokia-conf:interface'',
             Dict [(''tester1'', Dict [(''interface-name'', Str ''tester1''),
                                       (''admin-state'', Str ''disable'')])])]),
        Sleep 1,
        RunningGet interface_state_path (Dict [(''oper-state'', Str ''down'')])]"
  by code_simp

end
